theory Spec2Isabelle
  imports Complex_Main "HOL-Library.Word" "HOL-Library.Signed_Division"
begin

unbundle bit_operations_syntax

section \<open>Integer helpers of the detector\<close>

text \<open>
  The C \<^verbatim>\<open>int\<close> values of the detector are modelled as mathematical integers; the
  one place where a claim meets the 32-bit width (the shift in
  \<^verbatim>\<open>convert_image_index_to_scale\<close>) is modelled on \<open>32 word\<close>. C's \<^verbatim>\<open>/\<close> truncates
  towards zero (\<open>sdiv\<close>) and is undefined for a zero divisor, which is the value \<open>None\<close>.
\<close>

type_synonym byte = "8 word"

definition c_div :: "int \<Rightarrow> int \<Rightarrow> int option" where
  "c_div x y = (if y = 0 then None else Some (x sdiv y))"

definition divide_up :: "int \<Rightarrow> int \<Rightarrow> int option" where
  "divide_up x y = c_div (x + y - 1) y"

definition divide_round :: "int \<Rightarrow> int \<Rightarrow> int option" where
  "divide_round x y = c_div (x + y sdiv 2) y"

definition round_down_to_8n :: "int \<Rightarrow> int" where
  "round_down_to_8n x = x AND (- 8)"

definition round_up_to_8n :: "int \<Rightarrow> int" where
  "round_up_to_8n x = (x + 7) AND (- 8)"

definition round_to_8n :: "int \<Rightarrow> int" where
  "round_to_8n x = (x + 4) AND (- 8)"

section \<open>Error codes, memory and files\<close>

text \<open>
  \<^verbatim>\<open>EpErrorCode\<close> is declared in \<^verbatim>\<open>ep_cascade_detector.h\<close>; the constructors are the
  names the C file returns. \<open>ERR_RAW\<close> carries a bare integer that a function returns in
  place of an enumerator.
\<close>

datatype EpErrorCode =
  ERR_SUCCESS | ERR_ARGUMENT | ERR_FILE | ERR_FILE_CONTENTS | ERR_MEMORY | ERR_OTHER
  | ERR_RAW int

text \<open>
  The heap maps the address of every live \<^verbatim>\<open>malloc\<close> block to its bytes. Addresses are
  never reused, so a block that is absent from \<open>cells\<close> has been freed. \<open>avail\<close> is what
  \<^verbatim>\<open>malloc\<close> can still hand out (a request beyond it returns \<^verbatim>\<open>NULL\<close>), and \<open>junk\<close> is
  the indeterminate content of fresh memory.
\<close>

type_synonym addr = nat

record heap =
  cells :: "addr \<rightharpoonup> byte list"
  next_addr :: addr
  avail :: int
  junk :: "byte list"

definition malloc :: "heap \<Rightarrow> int \<Rightarrow> addr option \<times> heap" where
  "malloc h n =
     (if n < 0 \<or> avail h < n then (None, h)
      else (Some (next_addr h),
            h\<lparr>cells := (cells h)(next_addr h \<mapsto> take (nat n) (junk h @ replicate (nat n) 0)),
              next_addr := Suc (next_addr h),
              avail := avail h - n\<rparr>))"

definition free :: "heap \<Rightarrow> addr option \<Rightarrow> heap" where
  "free h p =
     (case p of
        None \<Rightarrow> h
      | Some a \<Rightarrow>
          (case cells h a of
             None \<Rightarrow> h
           | Some bs \<Rightarrow> h\<lparr>cells := (cells h)(a := None), avail := avail h + int (length bs)\<rparr>))"

text \<open>A 4-byte \<^verbatim>\<open>int\<close> as the host writes it with \<^verbatim>\<open>fwrite\<close> (little-endian).\<close>

definition le32_encode :: "int \<Rightarrow> byte list" where
  "le32_encode v =
     [word_of_int v, word_of_int (v div 256), word_of_int (v div 65536),
      word_of_int (v div 16777216)]"

definition le32_decode :: "byte list \<Rightarrow> int" where
  "le32_decode bs =
     (let u = uint (bs ! 0) + 256 * uint (bs ! 1) + 65536 * uint (bs ! 2)
              + 16777216 * uint (bs ! 3)
      in if u < 2147483648 then u else u - 4294967296)"

definition int32 :: "int \<Rightarrow> bool" where
  "int32 v = (- 2147483648 \<le> v \<and> v < 2147483648)"

text \<open>\<^verbatim>\<open>fread(&v, sizeof(int), 1, file)\<close> on the unread rest of a stream.\<close>

definition fread_int :: "byte list \<Rightarrow> (int \<times> byte list) option" where
  "fread_int rest =
     (if length rest < 4 then None else Some (le32_decode (take 4 rest), drop 4 rest))"

text \<open>
  A file system: the contents of each file, the names \<^verbatim>\<open>fopen(name, "wb")\<close> can open,
  and the size a file can grow to before \<^verbatim>\<open>fwrite\<close> comes back short.
\<close>

record filesys =
  files :: "string \<rightharpoonup> byte list"
  writable :: "string \<Rightarrow> bool"
  capacity :: nat

definition fwrite :: "nat \<Rightarrow> byte list \<Rightarrow> byte list \<Rightarrow> bool \<times> byte list" where
  "fwrite cap f bs =
     (if length f + length bs \<le> cap then (True, f @ bs)
      else (False, f @ take (cap - length f) bs))"

text \<open>
  The constants and the node layout that \<^verbatim>\<open>ep_cascade_detector.h\<close> declares. The header
  is not among the sources, so every function below takes them as the parameter \<open>H\<close>.
\<close>

record EpHeader =
  FILE_ID_IMAGE :: int
  FILE_ID_CLASSIFIER :: int
  MAX_TILE_BYTES :: int
  RECOMMENDED_TILE_SIZE :: int
  MAX_DETECTIONS_PER_TILE :: int
  SCAN_EVEN :: int
  SCAN_ODD :: int
  SCAN_FULL :: int
  NODE_META :: int
  NODE_DECISION :: int
  NODE_STAGE :: int
  NODE_FINAL :: int
  sizeof_EpNodeMeta :: nat
  sizeof_EpNodeDecision :: nat
  sizeof_EpNodeStage :: nat
  sizeof_EpNodeFinal :: nat
  off_window_width :: nat
  off_window_height :: nat
  off_feature :: nat
  off_score :: nat
  off_subsets :: nat
  off_threshold :: nat

text \<open>
  Modelled from the spec: the declarations of \<^verbatim>\<open>ep_cascade_detector.h\<close> are not among
  the sources. \<open>sample_header\<close> is one header that agrees with what the C file and the
  specification say of it: a node starts with its \<^verbatim>\<open>int\<close> type tag, Decision has tag 0
  (the interpreter tests the tag byte against 0), a Meta node holds the window width and
  height, a Decision node a packed feature, a score and eight 32-bit subset words, a
  Stage node a threshold, and the two checkerboard modes are the values 0 and 1 that
  \<^verbatim>\<open>(tile_x1 + tile_y1 + scan_mode) & 1\<close> produces. It is used to run the
  definitions on concrete inputs only; no theorem about every header depends on it.
\<close>

definition sample_header :: EpHeader where
  "sample_header =
     \<lparr>FILE_ID_IMAGE = 1, FILE_ID_CLASSIFIER = 2,
      MAX_TILE_BYTES = 8192, RECOMMENDED_TILE_SIZE = 32, MAX_DETECTIONS_PER_TILE = 16,
      SCAN_EVEN = 0, SCAN_ODD = 1, SCAN_FULL = 2,
      NODE_META = 3, NODE_DECISION = 0, NODE_STAGE = 1, NODE_FINAL = 2,
      sizeof_EpNodeMeta = 12, sizeof_EpNodeDecision = 44, sizeof_EpNodeStage = 8,
      sizeof_EpNodeFinal = 4,
      off_window_width = 4, off_window_height = 8,
      off_feature = 4, off_score = 8, off_subsets = 12, off_threshold = 4\<rparr>"

section \<open>Images\<close>

record EpImage =
  data :: "addr option"
  width :: int
  height :: int
  step :: int

definition ep_image_create_empty :: EpImage where
  "ep_image_create_empty = \<lparr>data = None, width = 0, height = 0, step = 0\<rparr>"

definition ep_image_is_empty :: "EpImage \<Rightarrow> bool" where
  "ep_image_is_empty img = (data img = None)"

definition ep_image_create :: "heap \<Rightarrow> int \<Rightarrow> int \<Rightarrow> EpImage \<times> heap" where
  "ep_image_create h w ht =
     (let st = round_up_to_8n w;
          (p, h') = malloc h (st * ht)
      in case p of
           None \<Rightarrow> (\<lparr>data = None, width = 0, height = 0, step = 0\<rparr>, h')
         | Some a \<Rightarrow> (\<lparr>data = Some a, width = w, height = ht, step = st\<rparr>, h'))"

definition ep_image_release :: "heap \<Rightarrow> EpImage \<Rightarrow> EpImage \<times> heap" where
  "ep_image_release h img =
     (\<lparr>data = None, width = 0, height = 0, step = 0\<rparr>, free h (data img))"

text \<open>
  \<open>span buf off n\<close> is the \<open>n\<close> bytes at offset \<open>off\<close> of a block, \<open>None\<close> when the
  read leaves the block. \<open>image_rows\<close> is the pixel data of an image, one row of
  \<open>width\<close> bytes every \<open>step\<close> bytes: the bytes that \<^verbatim>\<open>ep_image_checksum\<close> adds up and
  \<^verbatim>\<open>ep_image_save\<close> writes.
\<close>

definition span :: "byte list \<Rightarrow> int \<Rightarrow> int \<Rightarrow> byte list option" where
  "span buf off n =
     (if 0 \<le> off \<and> 0 \<le> n \<and> off + n \<le> int (length buf)
      then Some (take (nat n) (drop (nat off) buf)) else None)"

fun rows_from :: "byte list \<Rightarrow> int \<Rightarrow> int \<Rightarrow> int \<Rightarrow> nat \<Rightarrow> byte list list option" where
  "rows_from buf off st w 0 = Some []"
| "rows_from buf off st w (Suc k) =
     (case span buf off w of
        None \<Rightarrow> None
      | Some r \<Rightarrow>
          (case rows_from buf (off + st) st w k of
             None \<Rightarrow> None
           | Some rs \<Rightarrow> Some (r # rs)))"

definition image_rows :: "heap \<Rightarrow> EpImage \<Rightarrow> byte list list option" where
  "image_rows h img =
     (case data img of
        None \<Rightarrow> None
      | Some a \<Rightarrow>
          (case cells h a of
             None \<Rightarrow> None
           | Some buf \<Rightarrow>
               if step img = width img
               then (case span buf 0 (width img * height img) of
                       None \<Rightarrow> None | Some bs \<Rightarrow> Some [bs])
               else rows_from buf 0 (step img) (width img) (nat (height img))))"

definition ep_image_checksum :: "heap \<Rightarrow> EpImage \<Rightarrow> int option" where
  "ep_image_checksum h img =
     (case image_rows h img of
        None \<Rightarrow> None
      | Some rs \<Rightarrow> Some (sum_list (map uint (concat rs))))"

text \<open>
  \<^verbatim>\<open>ep_image_save\<close>: the error code and the file system it leaves. A failed write
  leaves the file as far as it was written. \<open>None\<close> is a read outside the pixel block.
\<close>

fun fwrite_rows :: "nat \<Rightarrow> byte list \<Rightarrow> byte list list \<Rightarrow> bool \<times> byte list" where
  "fwrite_rows cap f [] = (True, f)"
| "fwrite_rows cap f (r # rs) =
     (case fwrite cap f r of
        (False, f') \<Rightarrow> (False, f')
      | (True, f') \<Rightarrow> fwrite_rows cap f' rs)"

definition ep_image_save ::
  "EpHeader \<Rightarrow> heap \<Rightarrow> EpImage \<Rightarrow> filesys \<Rightarrow> string \<Rightarrow> (EpErrorCode \<times> filesys) option" where
  "ep_image_save H h img fs file_name =
     (if ep_image_is_empty img then Some (ERR_ARGUMENT, fs)
      else if width img \<le> 0 \<or> height img \<le> 0 then Some (ERR_ARGUMENT, fs)
      else if \<not> writable fs file_name then Some (ERR_FILE, fs)
      else
        let put = (\<lambda>f. fs\<lparr>files := (files fs)(file_name \<mapsto> f)\<rparr>) in
        (case fwrite (capacity fs) [] (le32_encode (FILE_ID_IMAGE H)) of
          (False, f1) \<Rightarrow> Some (ERR_FILE, put f1)
        | (True, f1) \<Rightarrow>
        (case fwrite (capacity fs) f1 (le32_encode (width img)) of
          (False, f2) \<Rightarrow> Some (ERR_FILE, put f2)
        | (True, f2) \<Rightarrow>
        (case fwrite (capacity fs) f2 (le32_encode (height img)) of
          (False, f3) \<Rightarrow> Some (ERR_FILE, put f3)
        | (True, f3) \<Rightarrow>
        (case image_rows h img of
          None \<Rightarrow> None
        | Some rs \<Rightarrow>
        (case fwrite_rows (capacity fs) f3 rs of
          (False, f4) \<Rightarrow> Some (ERR_FILE, put f4)
        | (True, f4) \<Rightarrow> Some (ERR_SUCCESS, put f4)))))))"

text \<open>
  \<^verbatim>\<open>ep_image_load\<close>. \<open>fread_into\<close> is \<^verbatim>\<open>fread\<close> into the start of a block: the bytes
  read replace the first bytes of the block and the rest stays. The result records the image returned, the last value stored
  through \<^verbatim>\<open>error_code\<close>, the heap, and how many times the stream was passed to
  \<^verbatim>\<open>fclose\<close>. The branch for a short pixel payload stores \<^verbatim>\<open>ERR_FILE_CONTENTS\<close>, closes
  the file and releases the image, and has no \<^verbatim>\<open>return\<close>: control goes on to the
  statements of the success path.
\<close>

record load_result =
  loaded :: EpImage
  error_code :: EpErrorCode
  heap_after :: heap
  fcloses :: nat

definition fread_into :: "heap \<Rightarrow> addr \<Rightarrow> byte list \<Rightarrow> heap" where
  "fread_into h a got =
     (case cells h a of
        None \<Rightarrow> h
      | Some buf \<Rightarrow> h\<lparr>cells := (cells h)(a \<mapsto> got @ drop (length got) buf)\<rparr>)"

definition ep_image_load :: "EpHeader \<Rightarrow> heap \<Rightarrow> filesys \<Rightarrow> string \<Rightarrow> load_result" where
  "ep_image_load H h fs file_name =
     (let result = ep_image_create_empty;
          bad = \<lparr>loaded = result, error_code = ERR_FILE_CONTENTS, heap_after = h, fcloses = 1\<rparr>
      in
      (case files fs file_name of
        None \<Rightarrow> \<lparr>loaded = result, error_code = ERR_FILE, heap_after = h, fcloses = 0\<rparr>
      | Some content \<Rightarrow>
      (case fread_int content of
        None \<Rightarrow> bad
      | Some (ident, rest1) \<Rightarrow>
      if ident \<noteq> FILE_ID_IMAGE H then bad else
      (case fread_int rest1 of
        None \<Rightarrow> bad
      | Some (image_width, rest2) \<Rightarrow>
      if image_width \<le> 0 then bad else
      (case fread_int rest2 of
        None \<Rightarrow> bad
      | Some (image_height, rest3) \<Rightarrow>
      if image_height \<le> 0 then bad else
      (case ep_image_create h image_width image_height of (result, h1) \<Rightarrow>
      (case data result of
        None \<Rightarrow> \<lparr>loaded = result, error_code = ERR_MEMORY, heap_after = h1, fcloses = 1\<rparr>
      | Some a \<Rightarrow>
        let data_size = image_width * image_height;
            got = take (nat data_size) rest3;
            h2 = fread_into h1 a got
        in if int (length got) \<noteq> data_size
           then (case ep_image_release h2 result of (result', h3) \<Rightarrow>
                   \<lparr>loaded = result', error_code = ERR_SUCCESS, heap_after = h3, fcloses = 2\<rparr>)
           else \<lparr>loaded = result, error_code = ERR_SUCCESS, heap_after = h2, fcloses = 1\<rparr>)))))))"

section \<open>Cascade classifier\<close>

text \<open>
  The classifier blob is kept by value: \<open>cls_data\<close> is \<open>None\<close> for the \<^verbatim>\<open>NULL\<close> pointer
  of an empty classifier, \<open>cls_size\<close> is the \<^verbatim>\<open>size\<close> field. Every node starts with its
  \<^verbatim>\<open>int\<close> type tag; \<open>rd32\<close> and \<open>rd8\<close> read an \<^verbatim>\<open>int\<close> and a \<^verbatim>\<open>char\<close> of the blob and are
  \<open>None\<close> outside it.
\<close>

record EpCascadeClassifier =
  cls_data :: "byte list option"
  cls_size :: int

definition rd32 :: "byte list \<Rightarrow> int \<Rightarrow> int option" where
  "rd32 bs off = (case span bs off 4 of None \<Rightarrow> None | Some b \<Rightarrow> Some (le32_decode b))"

definition rd8 :: "byte list \<Rightarrow> int \<Rightarrow> int option" where
  "rd8 bs off = (case span bs off 1 of None \<Rightarrow> None | Some b \<Rightarrow> Some (sint (b ! 0)))"

definition ep_classifier_create_empty :: EpCascadeClassifier where
  "ep_classifier_create_empty = \<lparr>cls_data = None, cls_size = 0\<rparr>"

definition ep_classifier_is_empty :: "EpCascadeClassifier \<Rightarrow> bool" where
  "ep_classifier_is_empty classifier = (cls_data classifier = None)"

definition ep_classifier_check :: "EpHeader \<Rightarrow> EpCascadeClassifier \<Rightarrow> int option" where
  "ep_classifier_check H classifier =
     (case cls_data classifier of
        None \<Rightarrow> Some 1
      | Some bs \<Rightarrow>
        let sz = cls_size classifier in
        if sz < int (sizeof_EpNodeMeta H + sizeof_EpNodeDecision H
                     + sizeof_EpNodeStage H + sizeof_EpNodeFinal H)
        then Some 2
        else
        (case rd32 bs 0 of None \<Rightarrow> None | Some first_tag \<Rightarrow>
         if first_tag \<noteq> NODE_META H then Some 3 else
        (case rd32 bs (int (off_window_height H)) of None \<Rightarrow> None | Some window_height \<Rightarrow>
         if window_height < 3 then Some 4 else
        (case rd32 bs (int (off_window_width H)) of None \<Rightarrow> None | Some window_width \<Rightarrow>
         if window_width < 3 then Some 4 else
        (case rd32 bs (int (sizeof_EpNodeMeta H)) of None \<Rightarrow> None | Some second_tag \<Rightarrow>
         if second_tag \<noteq> NODE_DECISION H then Some 5 else
         let last_item = sz - int (sizeof_EpNodeFinal H) in
        (case rd32 bs last_item of None \<Rightarrow> None | Some last_tag \<Rightarrow>
         if last_tag \<noteq> NODE_FINAL H then Some 6 else
         let before_last_item = last_item - int (sizeof_EpNodeStage H) in
        (case rd32 bs before_last_item of None \<Rightarrow> None | Some before_last_tag \<Rightarrow>
         if before_last_tag \<noteq> NODE_STAGE H then Some 7 else Some 0)))))))"

definition ep_classifier_checksum :: "EpCascadeClassifier \<Rightarrow> int option" where
  "ep_classifier_checksum classifier =
     (case cls_data classifier of
        None \<Rightarrow> (if cls_size classifier \<le> 0 then Some 0 else None)
      | Some bs \<Rightarrow>
          (case span bs 0 (max 0 (cls_size classifier)) of
             None \<Rightarrow> None
           | Some b \<Rightarrow> Some (sum_list (map sint b))))"

definition ep_classifier_save ::
  "EpHeader \<Rightarrow> EpCascadeClassifier \<Rightarrow> filesys \<Rightarrow> string \<Rightarrow> (EpErrorCode \<times> filesys) option" where
  "ep_classifier_save H classifier fs file_name =
     (case cls_data classifier of
        None \<Rightarrow> Some (ERR_ARGUMENT, fs)
      | Some bs \<Rightarrow>
        let classifier_size = cls_size classifier in
        if classifier_size \<le> 0 then Some (ERR_ARGUMENT, fs)
        else if \<not> writable fs file_name then Some (ERR_FILE, fs)
        else
          let put = (\<lambda>f. fs\<lparr>files := (files fs)(file_name \<mapsto> f)\<rparr>) in
          (case fwrite (capacity fs) [] (le32_encode (FILE_ID_CLASSIFIER H)) of
            (False, f1) \<Rightarrow> Some (ERR_FILE, put f1)
          | (True, f1) \<Rightarrow>
          (case fwrite (capacity fs) f1 (le32_encode classifier_size) of
            (False, f2) \<Rightarrow> Some (ERR_FILE, put f2)
          | (True, f2) \<Rightarrow>
          (case span bs 0 classifier_size of
            None \<Rightarrow> None
          | Some payload \<Rightarrow>
          (case fwrite (capacity fs) f2 payload of
            (False, f3) \<Rightarrow> Some (ERR_FILE, put f3)
          | (True, f3) \<Rightarrow> Some (ERR_SUCCESS, put f3))))))"

text \<open>
  \<^verbatim>\<open>ep_classifier_load\<close>: the classifier returned and the last value stored through
  \<^verbatim>\<open>error_code\<close>. The heap only decides whether \<^verbatim>\<open>malloc\<close> succeeds and what the fresh
  block holds.
\<close>

definition ep_classifier_load ::
  "EpHeader \<Rightarrow> heap \<Rightarrow> filesys \<Rightarrow> string \<Rightarrow> (EpCascadeClassifier \<times> EpErrorCode) option" where
  "ep_classifier_load H h fs file_name =
     (let result = ep_classifier_create_empty in
      (case files fs file_name of
        None \<Rightarrow> Some (result, ERR_FILE)
      | Some content \<Rightarrow>
      (case fread_int content of
        None \<Rightarrow> Some (result, ERR_FILE_CONTENTS)
      | Some (ident, rest1) \<Rightarrow>
      if ident \<noteq> FILE_ID_CLASSIFIER H then Some (result, ERR_FILE_CONTENTS) else
      (case fread_int rest1 of
        None \<Rightarrow> Some (result, ERR_FILE_CONTENTS)
      | Some (classifier_size, rest2) \<Rightarrow>
      if classifier_size \<le> 0 then Some (result, ERR_FILE_CONTENTS) else
      (case malloc h classifier_size of
        (None, h1) \<Rightarrow> Some (\<lparr>cls_data = None, cls_size = 0\<rparr>, ERR_MEMORY)
      | (Some a, h1) \<Rightarrow>
        let got = take (nat classifier_size) rest2 in
        if int (length got) \<noteq> classifier_size then Some (result, ERR_FILE_CONTENTS)
        else
          let loaded_cls = \<lparr>cls_data = Some got, cls_size = classifier_size\<rparr> in
          (case ep_classifier_check H loaded_cls of
             None \<Rightarrow> None
           | Some c \<Rightarrow>
               if c \<noteq> 0 then Some (result, ERR_FILE_CONTENTS)
               else Some (loaded_cls, ERR_SUCCESS)))))))"

section \<open>Classifier interpreter\<close>

text \<open>
  \<open>px off\<close> is the pixel at \<^verbatim>\<open>image_data + off\<close>, \<open>None\<close> outside the pixel block, and
  \<open>sum_px\<close> adds the pixels at a list of offsets. \<^verbatim>\<open>calc_lbp_decision\<close> samples block
  \<open>(r, c)\<close> of the 3 by 3 grid on one scan line (block height 1) or two, and at one
  column (block width 1) or two; \<open>lines\<close> and \<open>cols\<close> are the \<^verbatim>\<open>sl\<close> pointers and the
  \<^verbatim>\<open>x\<close> offsets of the four branches of the C function. The sign-bit extraction is
  done on 32-bit words as in the source.
\<close>

fun sum_px :: "(int \<Rightarrow> int option) \<Rightarrow> int list \<Rightarrow> int option" where
  "sum_px px [] = Some 0"
| "sum_px px (off # offs) =
     (case px off of
        None \<Rightarrow> None
      | Some v \<Rightarrow> (case sum_px px offs of None \<Rightarrow> None | Some t \<Rightarrow> Some (v + t)))"

definition sign_bit :: "int \<Rightarrow> nat \<Rightarrow> 32 word" where
  "sign_bit d sh = drop_bit sh (NOT (word_of_int d) AND push_bit 31 1)"

definition calc_lbp_decision ::
  "EpHeader \<Rightarrow> (int \<Rightarrow> int option) \<Rightarrow> int \<Rightarrow> byte list \<Rightarrow> int \<Rightarrow> int option" where
  "calc_lbp_decision H px image_step bs node =
     (case rd32 bs (node + int (off_feature H)) of
        None \<Rightarrow> None
      | Some feature \<Rightarrow>
        let base = (drop_bit 16 feature AND 255) + drop_bit 24 feature * image_step;
            feature_width = feature AND 255;
            feature_height = drop_bit 8 feature AND 255;
            step_x = (feature_width - 1) sdiv 4;
            step_y = (feature_height - 1) sdiv 4;
            lines = (\<lambda>r. if feature_height = 1 then [base + r * image_step]
                        else [base + step_y * image_step + r * (feature_height * image_step),
                              base + (feature_height - step_y - 1) * image_step
                                + r * (feature_height * image_step)]);
            cols = (\<lambda>c. if feature_width = 1 then [c]
                       else [step_x + c * feature_width,
                             feature_width - step_x - 1 + c * feature_width]);
            block = (\<lambda>r c. sum_px px (concat (map (\<lambda>l. map (\<lambda>x. l + x) (cols c)) (lines r))))
        in
        (case (block 0 0, block 0 1, block 0 2) of
           (Some sum00, Some sum01, Some sum02) \<Rightarrow>
        (case (block 1 0, block 1 1, block 1 2) of
           (Some sum10, Some sum11, Some sum12) \<Rightarrow>
        (case (block 2 0, block 2 1, block 2 2) of
           (Some sum20, Some sum21, Some sum22) \<Rightarrow>
             let subset_index = unat (sign_bit (sum00 - sum11) 29 OR sign_bit (sum01 - sum11) 30
                                      OR drop_bit 31 (NOT (word_of_int (sum02 - sum11))));
                 bit_index = unat (sign_bit (sum12 - sum11) 27 OR sign_bit (sum22 - sum11) 28
                                   OR sign_bit (sum21 - sum11) 29 OR sign_bit (sum20 - sum11) 30
                                   OR drop_bit 31 (NOT (word_of_int (sum10 - sum11))))
             in (case rd32 bs (node + int (off_subsets H) + 4 * int subset_index) of
                   None \<Rightarrow> None
                 | Some subset_word \<Rightarrow> Some (drop_bit bit_index subset_word AND 1))
         | _ \<Rightarrow> None)
         | _ \<Rightarrow> None)
         | _ \<Rightarrow> None))"

text \<open>\<^verbatim>\<open>node->score & -calc_lbp_decision(image_data, image_step, node)\<close>\<close>

definition decision_score ::
  "EpHeader \<Rightarrow> (int \<Rightarrow> int option) \<Rightarrow> int \<Rightarrow> byte list \<Rightarrow> int \<Rightarrow> int option" where
  "decision_score H px image_step bs node =
     (case rd32 bs (node + int (off_score H)) of
        None \<Rightarrow> None
      | Some score \<Rightarrow>
          (case calc_lbp_decision H px image_step bs node of
             None \<Rightarrow> None
           | Some d \<Rightarrow> Some (score AND (- d))))"

text \<open>
  The \<^verbatim>\<open>while(1)\<close> loop of \<^verbatim>\<open>classify\<close>. \<open>node\<close> is the offset of the current node in
  the blob. \<open>None\<close> is a read outside the blob or the pixel block, or a loop that never
  leaves.
\<close>

partial_function (option) classify_loop ::
  "EpHeader \<Rightarrow> (int \<Rightarrow> int option) \<Rightarrow> int \<Rightarrow> byte list \<Rightarrow> int \<Rightarrow> int \<Rightarrow> int option" where
  "classify_loop H px image_step bs node object_score =
     (case rd8 bs node of
        None \<Rightarrow> None
      | Some tag \<Rightarrow>
          if tag = 0
          then (case decision_score H px image_step bs node of
                  None \<Rightarrow> None
                | Some s \<Rightarrow>
                    classify_loop H px image_step bs (node + int (sizeof_EpNodeDecision H))
                      (object_score + s))
          else (case rd32 bs (node + int (off_threshold H)) of
                  None \<Rightarrow> None
                | Some threshold \<Rightarrow>
                    if object_score < threshold then Some 0
                    else
                      let node2 = node + int (sizeof_EpNodeStage H) in
                      (case rd8 bs node2 of
                         None \<Rightarrow> None
                       | Some tag2 \<Rightarrow>
                           if tag2 \<noteq> 0 then Some 1
                           else (case decision_score H px image_step bs node2 of
                                   None \<Rightarrow> None
                                 | Some s \<Rightarrow>
                                     classify_loop H px image_step bs
                                       (node2 + int (sizeof_EpNodeDecision H)) s))))"

definition classify ::
  "EpHeader \<Rightarrow> (int \<Rightarrow> int option) \<Rightarrow> int \<Rightarrow> byte list \<Rightarrow> int \<Rightarrow> int option" where
  "classify H px image_step bs node =
     (case decision_score H px image_step bs node of
        None \<Rightarrow> None
      | Some s \<Rightarrow>
          classify_loop H px image_step bs (node + int (sizeof_EpNodeDecision H)) s)"

section \<open>Single-scale scan on the host\<close>

text \<open>
  Rectangle coordinates are \<^verbatim>\<open>float\<close> in the source. They are modelled as exact
  rationals: the rounding of single precision is outside the model.
\<close>

record EpRect =
  rect_x :: rat
  rect_y :: rat
  rect_width :: rat
  rect_height :: rat

text \<open>
  The rectangle of the window at position \<open>p\<close> of a pyramid level, in the coordinates
  of the source image, for a scale factor and the pyramid margins.
\<close>

definition scaled_rect :: "rat \<Rightarrow> int \<Rightarrow> int \<Rightarrow> int \<Rightarrow> int \<Rightarrow> int \<times> int \<Rightarrow> EpRect" where
  "scaled_rect scale offset_x offset_y window_width window_height p =
     \<lparr>rect_x = of_int (fst p) * scale + of_int offset_x,
      rect_y = of_int (snd p) * scale + of_int offset_y,
      rect_width = of_int window_width * scale,
      rect_height = of_int window_height * scale\<rparr>"

text \<open>
  The \<open>x\<close> loop of one scan line, from \<open>x\<close> on: \<^verbatim>\<open>x_step\<close> is 1 for \<^verbatim>\<open>SCAN_FULL\<close> and 2
  otherwise. \<open>scan_positions\<close> lists the positions \<open>(x, y)\<close> at which
  \<^verbatim>\<open>detect_single_scale_host\<close> calls \<^verbatim>\<open>classify\<close>. The rows of the OpenMP loop are
  taken in order; which thread runs a row changes neither the positions nor the set of
  rectangles.
\<close>

function scan_line :: "EpHeader \<Rightarrow> int \<Rightarrow> int \<Rightarrow> int \<Rightarrow> int list" where
  "scan_line H scan_mode x process_width =
     (if x < process_width
      then x # scan_line H scan_mode (x + (if scan_mode = SCAN_FULL H then 1 else 2)) process_width
      else [])"
  by pat_completeness auto
termination
  by (relation "measure (\<lambda>(H, scan_mode, x, process_width). nat (process_width - x))") auto

declare scan_line.simps [simp del]

definition scan_positions :: "EpHeader \<Rightarrow> int \<Rightarrow> int \<Rightarrow> int \<Rightarrow> (int \<times> int) list" where
  "scan_positions H scan_mode process_width process_height =
     concat (map (\<lambda>y. map (\<lambda>x. (x, y))
                    (scan_line H scan_mode
                       (if scan_mode = SCAN_FULL H then 0 else (y + scan_mode) AND 1)
                       process_width))
                 [0..process_height - 1])"

definition pixel_at :: "byte list \<Rightarrow> int \<Rightarrow> int option" where
  "pixel_at buf i = (if 0 \<le> i \<and> i < int (length buf) then Some (uint (buf ! nat i)) else None)"

definition image_block :: "heap \<Rightarrow> EpImage \<Rightarrow> byte list" where
  "image_block h img =
     (case data img of None \<Rightarrow> [] | Some a \<Rightarrow> (case cells h a of None \<Rightarrow> [] | Some b \<Rightarrow> b))"

fun classify_positions ::
  "EpHeader \<Rightarrow> byte list \<Rightarrow> int \<Rightarrow> byte list \<Rightarrow> rat \<Rightarrow> int \<Rightarrow> int \<Rightarrow> rat \<Rightarrow> rat
   \<Rightarrow> (int \<times> int) list \<Rightarrow> EpRect list \<Rightarrow> EpRect list option" where
  "classify_positions H buf image_step bs scale offset_x offset_y dw dh [] objects = Some objects"
| "classify_positions H buf image_step bs scale offset_x offset_y dw dh ((x, y) # ps) objects =
     (case classify H (\<lambda>off. pixel_at buf (y * image_step + x + off)) image_step bs
             (int (sizeof_EpNodeMeta H)) of
        None \<Rightarrow> None
      | Some r \<Rightarrow>
          classify_positions H buf image_step bs scale offset_x offset_y dw dh ps
            (if r \<noteq> 0
             then objects @ [\<lparr>rect_x = of_int x * scale + of_int offset_x,
                              rect_y = of_int y * scale + of_int offset_y,
                              rect_width = dw, rect_height = dh\<rparr>]
             else objects))"

text \<open>
  \<open>classify_at\<close> is the call \<^verbatim>\<open>classify(node, scan_line + x, image_step)\<close> that
  \<^verbatim>\<open>detect_single_scale_host\<close> makes at the position \<open>p = (x, y)\<close>.
\<close>

definition classify_at ::
  "EpHeader \<Rightarrow> heap \<Rightarrow> EpImage \<Rightarrow> EpCascadeClassifier \<Rightarrow> int \<times> int \<Rightarrow> int option" where
  "classify_at H h img classifier p =
     classify H (\<lambda>off. pixel_at (image_block h img) (snd p * step img + fst p + off)) (step img)
       (case cls_data classifier of None \<Rightarrow> [] | Some bs \<Rightarrow> bs) (int (sizeof_EpNodeMeta H))"

text \<open>The window size in the \<^verbatim>\<open>EpNodeMeta\<close> that starts the blob.\<close>

definition window_size :: "EpHeader \<Rightarrow> EpCascadeClassifier \<Rightarrow> (int \<times> int) option" where
  "window_size H classifier =
     (case cls_data classifier of
        None \<Rightarrow> None
      | Some bs \<Rightarrow>
          (case (rd32 bs (int (off_window_width H)), rd32 bs (int (off_window_height H))) of
             (Some window_width, Some window_height) \<Rightarrow> Some (window_width, window_height)
           | _ \<Rightarrow> None))"

definition detect_single_scale_host ::
  "EpHeader \<Rightarrow> heap \<Rightarrow> EpImage \<Rightarrow> EpCascadeClassifier \<Rightarrow> EpRect list \<Rightarrow> rat \<Rightarrow> int \<Rightarrow> int
   \<Rightarrow> int \<Rightarrow> EpRect list option" where
  "detect_single_scale_host H h img classifier objects scale offset_x offset_y scan_mode =
     (case window_size H classifier of
        None \<Rightarrow> None
      | Some (window_width, window_height) \<Rightarrow>
          let process_width = width img + 1 - window_width;
              process_height = height img + 1 - window_height;
              detection_width = of_int window_width * scale;
              detection_height = of_int window_height * scale
          in classify_positions H (image_block h img) (step img)
               (case cls_data classifier of None \<Rightarrow> [] | Some bs \<Rightarrow> bs)
               scale offset_x offset_y detection_width detection_height
               (scan_positions H scan_mode process_width process_height) objects)"

section \<open>Scale of a pyramid level and result reconstruction\<close>

text \<open>
  \<^verbatim>\<open>(float)( 8 << (image_index / 4) ) / ( 8 - (image_index % 4) )\<close>: the shift is done
  in a 32-bit \<^verbatim>\<open>int\<close>, the quotient is the exact rational.
\<close>

definition convert_image_index_to_scale :: "int \<Rightarrow> rat" where
  "convert_image_index_to_scale image_index =
     of_int (sint (push_bit (nat (image_index sdiv 4)) (8 :: 32 word)))
       / of_int (8 - image_index smod 4)"

record EpImageProp =
  prop_data_offset :: int
  prop_step :: int
  prop_width :: int
  prop_height :: int

record EpImgList =
  props :: "EpImageProp list"
  prev_offset :: int
  cur_offset :: int

definition ep_img_list_create_empty :: "int \<Rightarrow> EpImgList" where
  "ep_img_list_create_empty start_offset =
     \<lparr>props = [], prev_offset = start_offset, cur_offset = start_offset\<rparr>"

definition ep_img_list_add :: "EpImgList \<Rightarrow> int \<Rightarrow> int \<Rightarrow> int \<Rightarrow> EpImgList" where
  "ep_img_list_add img_list st w ht =
     \<lparr>props = props img_list
               @ [\<lparr>prop_data_offset = cur_offset img_list, prop_step = st,
                   prop_width = w, prop_height = ht\<rparr>],
      prev_offset = cur_offset img_list,
      cur_offset = cur_offset img_list + st * ht\<rparr>"

record EpTaskItem =
  task_offset :: int
  task_area :: int
  task_width :: int
  task_height :: int
  task_step :: int
  task_scan_mode :: int
  task_items_count :: int
  task_image_index :: int
  task_objects :: "int list"

definition ep_task_list_add ::
  "EpTaskItem list \<Rightarrow> int \<Rightarrow> int \<Rightarrow> int \<Rightarrow> int \<Rightarrow> int \<Rightarrow> int \<Rightarrow> int \<Rightarrow> EpTaskItem list" where
  "ep_task_list_add task_list offs w ht st scan_mode items_count image_index =
     task_list @ [\<lparr>task_offset = offs, task_area = st * ht, task_width = w, task_height = ht,
                   task_step = st, task_scan_mode = scan_mode, task_items_count = items_count,
                   task_image_index = image_index, task_objects = []\<rparr>]"

definition nth_opt :: "'a list \<Rightarrow> int \<Rightarrow> 'a option" where
  "nth_opt xs i = (if 0 \<le> i \<and> i < int (length xs) then Some (xs ! nat i) else None)"

fun task_rects :: "int \<Rightarrow> int \<Rightarrow> rat \<Rightarrow> int \<Rightarrow> int \<Rightarrow> rat \<Rightarrow> rat \<Rightarrow> int list \<Rightarrow> EpRect list" where
  "task_rects tile_x tile_y scale offset_x offset_y ow oh [] = []"
| "task_rects tile_x tile_y scale offset_x offset_y ow oh (object_pos_packed # rest) =
     (let object_rel_x = object_pos_packed AND 65535;
          object_rel_y = drop_bit 16 object_pos_packed
      in \<lparr>rect_x = of_int (tile_x + object_rel_x) * scale + of_int offset_x,
          rect_y = of_int (tile_y + object_rel_y) * scale + of_int offset_y,
          rect_width = ow, rect_height = oh\<rparr>
         # task_rects tile_x tile_y scale offset_x offset_y ow oh rest)"

text \<open>
  \<^verbatim>\<open>process_results\<close>: the rectangle list and the number of detections. \<open>None\<close> is an
  index outside the image list or the object slots of a task, a zero step, or the
  failed \<^verbatim>\<open>assert\<close> on the count of a task.
\<close>

fun process_results ::
  "EpHeader \<Rightarrow> EpRect list \<Rightarrow> EpTaskItem list \<Rightarrow> EpImgList \<Rightarrow> int \<Rightarrow> int \<Rightarrow> int \<Rightarrow> int
   \<Rightarrow> (EpRect list \<times> int) option" where
  "process_results H objects [] images_properties window_width window_height offset_x offset_y =
     Some (objects, 0)"
| "process_results H objects (task # tasks) images_properties window_width window_height
     offset_x offset_y =
     (let image_index = task_image_index task;
          objects_count = task_items_count task;
          tile_offset = task_offset task
      in case nth_opt (props images_properties) image_index of
           None \<Rightarrow> None
         | Some prop \<Rightarrow>
             let image_step = prop_step prop in
             if image_step = 0 then None
             else
               let tile_x = tile_offset smod image_step;
                   tile_y = tile_offset sdiv image_step;
                   scale = convert_image_index_to_scale image_index;
                   object_width = of_int window_width * scale;
                   object_height = of_int window_height * scale
               in if \<not> objects_count \<le> MAX_DETECTIONS_PER_TILE H then None
                  else if int (length (task_objects task)) < objects_count then None
                  else
                    (case process_results H
                            (objects @ task_rects tile_x tile_y scale offset_x offset_y
                                         object_width object_height
                                         (take (nat objects_count) (task_objects task)))
                            tasks images_properties window_width window_height offset_x offset_y of
                       None \<Rightarrow> None
                     | Some (objects', rest_count) \<Rightarrow> Some (objects', objects_count + rest_count)))"

section \<open>Tiling scheduler\<close>

text \<open>
  \<open>tile_counts\<close> is the first half of \<^verbatim>\<open>add_tasks_for_image\<close>: the numbers
  \<open>(tiles_hor, tiles_ver)\<close> for a corrected area \<open>image_width\<close> by \<open>image_height\<close>.
  \<open>tile_bounds\<close> is the body of its loop for one \<open>tile_index\<close>. Both are \<open>None\<close> when a
  division has a zero divisor.
\<close>

definition tile_counts :: "EpHeader \<Rightarrow> int \<Rightarrow> int \<Rightarrow> int \<Rightarrow> int \<Rightarrow> (int \<times> int) option" where
  "tile_counts H image_width image_height overlap_width overlap_height =
     (if image_height < image_width
      then
        (case divide_round image_height (RECOMMENDED_TILE_SIZE H - overlap_height) of
           None \<Rightarrow> None
         | Some tv \<Rightarrow>
             let tiles_ver = (if tv = 0 then 1 else tv) in
             (case divide_up (image_height + overlap_height * tiles_ver) tiles_ver of
                None \<Rightarrow> None
              | Some max_tile_height \<Rightarrow>
                  (case c_div (MAX_TILE_BYTES H) max_tile_height of
                     None \<Rightarrow> None
                   | Some q \<Rightarrow>
                       let max_tile_step =
                             round_down_to_8n (round_down_to_8n q - overlap_width) + overlap_width
                       in (case divide_up image_width (max_tile_step - overlap_width) of
                             None \<Rightarrow> None
                           | Some tiles_hor \<Rightarrow> Some (tiles_hor, tiles_ver)))))
      else
        (case divide_round image_width (RECOMMENDED_TILE_SIZE H - overlap_width) of
           None \<Rightarrow> None
         | Some th \<Rightarrow>
             let tiles_hor = (if th = 0 then 1 else th) in
             (case divide_up (image_width + overlap_width * tiles_hor) tiles_hor of
                None \<Rightarrow> None
              | Some d \<Rightarrow>
                  let max_tile_step =
                        round_up_to_8n (round_up_to_8n (d - overlap_width) + overlap_width)
                  in (case c_div (MAX_TILE_BYTES H) max_tile_step of
                        None \<Rightarrow> None
                      | Some tile_height \<Rightarrow>
                          (case divide_up image_height (tile_height - overlap_height) of
                             None \<Rightarrow> None
                           | Some tiles_ver \<Rightarrow> Some (tiles_hor, tiles_ver))))))"

record tile =
  tile_x1 :: int
  tile_y1 :: int
  tile_width :: int
  tile_height :: int
  tile_step :: int

definition tile_bounds ::
  "int \<Rightarrow> int \<Rightarrow> int \<Rightarrow> int \<Rightarrow> int \<Rightarrow> int \<Rightarrow> int \<Rightarrow> tile option" where
  "tile_bounds image_width image_height overlap_width overlap_height tiles_hor tiles_ver tile_index =
     (case c_div tile_index tiles_hor of
        None \<Rightarrow> None
      | Some tile_y \<Rightarrow>
     (case (divide_round (image_height * tile_y) tiles_ver,
            divide_round (image_height * (tile_y + 1)) tiles_ver) of
        (Some y1, Some y2') \<Rightarrow>
          let y2 = y2' + overlap_height;
              tile_x = tile_index smod tiles_hor
          in
          (case (divide_round (image_width * tile_x) tiles_hor,
                 divide_round (image_width * (tile_x + 1)) tiles_hor) of
             (Some xa, Some xb) \<Rightarrow>
               let x1 = round_to_8n xa;
                   x2 = (if tile_x + 1 = tiles_hor then image_width + overlap_width
                         else round_to_8n xb + overlap_width)
               in Some \<lparr>tile_x1 = x1, tile_y1 = y1, tile_width = x2 - x1,
                         tile_height = y2 - y1, tile_step = round_up_to_8n (x2 - x1)\<rparr>
           | _ \<Rightarrow> None)
      | _ \<Rightarrow> None))"

datatype fault = DivisionByZero | AssertionFailed | BadIndex

text \<open>
  The loop over \<open>tile_index\<close>. A tile that breaks
  \<^verbatim>\<open>assert(tile_step * tile_height <= MAX_TILE_BYTES)\<close> stops the program. Growing the
  task list is taken to succeed.
\<close>

fun add_tiles ::
  "EpHeader \<Rightarrow> int \<Rightarrow> int \<Rightarrow> int \<Rightarrow> int \<Rightarrow> int \<Rightarrow> int \<Rightarrow> int \<Rightarrow> int \<Rightarrow> int
   \<Rightarrow> int list \<Rightarrow> EpTaskItem list \<Rightarrow> fault + EpTaskItem list" where
  "add_tiles H scan_mode img_step img_index iw ih ow oh tiles_hor tiles_ver [] task_buf =
     Inr task_buf"
| "add_tiles H scan_mode img_step img_index iw ih ow oh tiles_hor tiles_ver (tile_index # rest)
     task_buf =
     (case tile_bounds iw ih ow oh tiles_hor tiles_ver tile_index of
        None \<Rightarrow> Inl DivisionByZero
      | Some t \<Rightarrow>
          if \<not> tile_step t * tile_height t \<le> MAX_TILE_BYTES H then Inl AssertionFailed
          else add_tiles H scan_mode img_step img_index iw ih ow oh tiles_hor tiles_ver rest
                 (ep_task_list_add task_buf
                    (tile_x1 t + tile_y1 t * img_step) (tile_width t) (tile_height t) (tile_step t)
                    (if scan_mode = SCAN_FULL H then SCAN_FULL H
                     else (tile_x1 t + tile_y1 t + scan_mode) AND 1)
                    0 img_index))"

definition add_tasks_for_image ::
  "EpHeader \<Rightarrow> int \<Rightarrow> EpImgList \<Rightarrow> int \<Rightarrow> int \<Rightarrow> int \<Rightarrow> EpTaskItem list
   \<Rightarrow> fault + EpTaskItem list" where
  "add_tasks_for_image H scan_mode img_list img_index window_width window_height task_buf =
     (case nth_opt (props img_list) img_index of
        None \<Rightarrow> Inl BadIndex
      | Some img_prop \<Rightarrow>
          let overlap_width = window_width - 1;
              overlap_height = window_height - 1;
              image_width = prop_width img_prop - overlap_width;
              image_height = prop_height img_prop - overlap_height
          in (case tile_counts H image_width image_height overlap_width overlap_height of
                None \<Rightarrow> Inl DivisionByZero
              | Some (tiles_hor, tiles_ver) \<Rightarrow>
                  add_tiles H scan_mode (prop_step img_prop) img_index image_width image_height
                    overlap_width overlap_height tiles_hor tiles_ver
                    [0..tiles_hor * tiles_ver - 1] task_buf))"

section \<open>Pyramid construction\<close>

text \<open>
  The interpolation arithmetic of \<^verbatim>\<open>scale8765\<close> and \<^verbatim>\<open>scale21\<close> enters none of the
  properties below. The model keeps what the two functions do to the image structures
  and which heap blocks they write, and takes the bytes they compute from the
  parameter \<open>K\<close>: a kernel maps the source block, the source image, the destination
  block and the destination image to the new destination block. A write through
  \<^verbatim>\<open>NULL\<close> or into a freed block is \<open>None\<close>.
\<close>

type_synonym kernel = "byte list \<Rightarrow> EpImage \<Rightarrow> byte list \<Rightarrow> EpImage \<Rightarrow> byte list"

record pixel_kernels =
  scale87_bytes :: kernel
  scale86_bytes :: kernel
  scale85_bytes :: kernel
  scale21_bytes :: kernel

definition block_of :: "heap \<Rightarrow> EpImage \<Rightarrow> (addr \<times> byte list) option" where
  "block_of h img =
     (case data img of
        None \<Rightarrow> None
      | Some a \<Rightarrow> (case cells h a of None \<Rightarrow> None | Some b \<Rightarrow> Some (a, b)))"

definition write_image :: "kernel \<Rightarrow> heap \<Rightarrow> EpImage \<Rightarrow> EpImage \<Rightarrow> heap option" where
  "write_image k h src out =
     (case (block_of h src, block_of h out) of
        (Some (sa, sb), Some (oa, ob)) \<Rightarrow> Some (h\<lparr>cells := (cells h)(oa \<mapsto> k sb src ob out)\<rparr>)
      | _ \<Rightarrow> None)"

definition scale8765 ::
  "pixel_kernels \<Rightarrow> heap \<Rightarrow> EpImage \<Rightarrow> EpImage \<Rightarrow> EpImage \<Rightarrow> EpImage
   \<Rightarrow> (heap \<times> EpImage \<times> EpImage \<times> EpImage \<times> int \<times> int) option" where
  "scale8765 K h src8 out7 out6 out5 =
     (let src_width = width src8; src_height = height src8;
          blocks_width = src_width sdiv 8; blocks_height = src_height sdiv 8;
          offset_x = (src_width smod 8) sdiv 2; offset_y = (src_height smod 8) sdiv 2;
          o7 = out7\<lparr>width := blocks_width * 7, height := blocks_height * 7\<rparr>;
          o6 = out6\<lparr>width := blocks_width * 6, height := blocks_height * 6\<rparr>;
          o5 = out5\<lparr>width := blocks_width * 5, height := blocks_height * 5\<rparr>
      in if 0 < blocks_height \<and> 0 < blocks_width
         then (case write_image (scale87_bytes K) h src8 o7 of
                 None \<Rightarrow> None
               | Some h1 \<Rightarrow>
              (case write_image (scale86_bytes K) h1 src8 o6 of
                 None \<Rightarrow> None
               | Some h2 \<Rightarrow>
              (case write_image (scale85_bytes K) h2 src8 o5 of
                 None \<Rightarrow> None
               | Some h3 \<Rightarrow> Some (h3, o7, o6, o5, offset_x, offset_y))))
         else Some (h, o7, o6, o5, offset_x, offset_y))"

definition scale21 :: "pixel_kernels \<Rightarrow> heap \<Rightarrow> EpImage \<Rightarrow> EpImage \<Rightarrow> (heap \<times> EpImage) option" where
  "scale21 K h src out =
     (let out_width = width src sdiv 2;
          out_height = height src sdiv 2;
          out' = out\<lparr>width := out_width, height := out_height\<rparr>
      in if 0 < out_height \<and> 0 < out_width
         then (case write_image (scale21_bytes K) h src out' of
                 None \<Rightarrow> None
               | Some h' \<Rightarrow> Some (h', out'))
         else Some (h, out'))"

definition scale21_realloc :: "pixel_kernels \<Rightarrow> heap \<Rightarrow> EpImage \<Rightarrow> (heap \<times> EpImage) option" where
  "scale21_realloc K h src =
     (case ep_image_create h (width src sdiv 2) (height src sdiv 2) of
        (temp, h1) \<Rightarrow>
          (case scale21 K h1 src temp of
             None \<Rightarrow> None
           | Some (h2, temp') \<Rightarrow>
               (case ep_image_release h2 src of (src', h3) \<Rightarrow> Some (h3, temp'))))"

section \<open>Multi-scale detection on the host\<close>

record pyramid =
  img8 :: EpImage
  img7 :: EpImage
  img6 :: EpImage
  img5 :: EpImage

text \<open>
  \<open>scan_level\<close> is one pair of statements of the \<^verbatim>\<open>while(1)\<close> loop of
  \<^verbatim>\<open>ep_detect_multi_scale_host\<close>: the scale of level \<open>image_index\<close> and the scan of its
  image. \<open>host_loop\<close> is the loop; it is \<open>None\<close> when a scan or a halving is, or when
  the loop never leaves.
\<close>

definition scan_level ::
  "EpHeader \<Rightarrow> heap \<Rightarrow> EpImage \<Rightarrow> EpCascadeClassifier \<Rightarrow> EpRect list \<Rightarrow> int \<Rightarrow> int \<Rightarrow> int
   \<Rightarrow> int \<Rightarrow> EpRect list option" where
  "scan_level H h img classifier objects image_index offset_x offset_y scan_mode =
     detect_single_scale_host H h img classifier objects
       (convert_image_index_to_scale image_index) offset_x offset_y scan_mode"

definition too_small :: "EpImage \<Rightarrow> int \<Rightarrow> int \<Rightarrow> bool" where
  "too_small img window_width window_height =
     (width img < window_width \<or> height img < window_height)"

definition halve_all :: "pixel_kernels \<Rightarrow> heap \<Rightarrow> pyramid \<Rightarrow> (heap \<times> pyramid) option" where
  "halve_all K h p =
     (case scale21 K h (img8 p) (img8 p) of None \<Rightarrow> None | Some (h1, i8) \<Rightarrow>
     (case scale21 K h1 (img7 p) (img7 p) of None \<Rightarrow> None | Some (h2, i7) \<Rightarrow>
     (case scale21 K h2 (img6 p) (img6 p) of None \<Rightarrow> None | Some (h3, i6) \<Rightarrow>
     (case scale21 K h3 (img5 p) (img5 p) of None \<Rightarrow> None | Some (h4, i5) \<Rightarrow>
        Some (h4, \<lparr>img8 = i8, img7 = i7, img6 = i6, img5 = i5\<rparr>)))))"

partial_function (option) host_loop ::
  "EpHeader \<Rightarrow> pixel_kernels \<Rightarrow> EpCascadeClassifier \<Rightarrow> int \<Rightarrow> int \<Rightarrow> int \<Rightarrow> int \<Rightarrow> int
   \<Rightarrow> heap \<Rightarrow> pyramid \<Rightarrow> EpRect list \<Rightarrow> int \<Rightarrow> (heap \<times> pyramid \<times> EpRect list) option" where
  "host_loop H K classifier window_width window_height offset_x offset_y scan_mode
     h p objects image_index =
     (if too_small (img8 p) window_width window_height then Some (h, p, objects) else
     (case scan_level H h (img8 p) classifier objects image_index offset_x offset_y scan_mode of
        None \<Rightarrow> None
      | Some objects1 \<Rightarrow>
     (if too_small (img7 p) window_width window_height then Some (h, p, objects1) else
     (case scan_level H h (img7 p) classifier objects1 (image_index + 1) offset_x offset_y
             scan_mode of
        None \<Rightarrow> None
      | Some objects2 \<Rightarrow>
     (if too_small (img6 p) window_width window_height then Some (h, p, objects2) else
     (case scan_level H h (img6 p) classifier objects2 (image_index + 2) offset_x offset_y
             scan_mode of
        None \<Rightarrow> None
      | Some objects3 \<Rightarrow>
     (if too_small (img5 p) window_width window_height then Some (h, p, objects3) else
     (case scan_level H h (img5 p) classifier objects3 (image_index + 3) offset_x offset_y
             scan_mode of
        None \<Rightarrow> None
      | Some objects4 \<Rightarrow>
     (case halve_all K h p of
        None \<Rightarrow> None
      | Some (h', p') \<Rightarrow>
          host_loop H K classifier window_width window_height offset_x offset_y scan_mode
            h' p' objects4 (image_index + 4))))))))))"

record detect_result =
  returned :: EpErrorCode
  heap_left :: heap
  image_left :: EpImage
  objects_left :: "EpRect list"

definition release_all :: "heap \<Rightarrow> pyramid \<Rightarrow> heap" where
  "release_all h p =
     (case ep_image_release h (img5 p) of (i5, h1) \<Rightarrow>
     (case ep_image_release h1 (img6 p) of (i6, h2) \<Rightarrow>
     (case ep_image_release h2 (img7 p) of (i7, h3) \<Rightarrow>
     (case ep_image_release h3 (img8 p) of (i8, h4) \<Rightarrow> h4))))"

text \<open>
  The prologue shared by the two entry points, after the argument checks: the caller's
  structure is copied into \<^verbatim>\<open>img8\<close>, the three other images are created, the
  caller's structure is overwritten with the empty image, and \<^verbatim>\<open>scale8765\<close> runs.
\<close>

definition build_pyramid ::
  "pixel_kernels \<Rightarrow> heap \<Rightarrow> EpImage \<Rightarrow> (heap \<times> pyramid \<times> int \<times> int) option" where
  "build_pyramid K h img =
     (let blocks_x = width img sdiv 8;
          blocks_y = height img sdiv 8
      in (case ep_image_create h (blocks_x * 7) (blocks_y * 7) of (i7, h1) \<Rightarrow>
         (case ep_image_create h1 (blocks_x * 6) (blocks_y * 6) of (i6, h2) \<Rightarrow>
         (case ep_image_create h2 (blocks_x * 5) (blocks_y * 5) of (i5, h3) \<Rightarrow>
         (case scale8765 K h3 img i7 i6 i5 of
            None \<Rightarrow> None
          | Some (h4, o7, o6, o5, offset_x, offset_y) \<Rightarrow>
              Some (h4, \<lparr>img8 = img, img7 = o7, img6 = o6, img5 = o5\<rparr>,
                    offset_x, offset_y))))))"

definition ep_detect_multi_scale_host ::
  "EpHeader \<Rightarrow> pixel_kernels \<Rightarrow> heap \<Rightarrow> EpImage \<Rightarrow> EpCascadeClassifier \<Rightarrow> EpRect list \<Rightarrow> int
   \<Rightarrow> detect_result option" where
  "ep_detect_multi_scale_host H K h img classifier objects scan_mode =
     (case ep_classifier_check H classifier of
        None \<Rightarrow> None
      | Some c \<Rightarrow>
     (if c \<noteq> 0
      then Some \<lparr>returned = ERR_ARGUMENT, heap_left = h, image_left = img, objects_left = objects\<rparr>
      else if ep_image_is_empty img
      then Some \<lparr>returned = ERR_ARGUMENT, heap_left = h, image_left = img, objects_left = objects\<rparr>
      else
     (case window_size H classifier of
        None \<Rightarrow> None
      | Some (window_width, window_height) \<Rightarrow>
     (if width img < window_width \<or> height img < window_height
      then Some \<lparr>returned = ERR_SUCCESS, heap_left = h, image_left = img, objects_left = objects\<rparr>
      else
     (case build_pyramid K h img of
        None \<Rightarrow> None
      | Some (h1, p, offset_x, offset_y) \<Rightarrow>
     (case host_loop H K classifier window_width window_height offset_x offset_y scan_mode
             h1 p objects 0 of
        None \<Rightarrow> None
      | Some (h2, p', objects') \<Rightarrow>
          Some \<lparr>returned = ERR_SUCCESS, heap_left = release_all h2 p',
                image_left = ep_image_create_empty, objects_left = objects'\<rparr>))))))"

section \<open>Multi-scale detection on the coprocessor\<close>

text \<open>
  What the host sees of the device: whether \<^verbatim>\<open>e_load_group\<close> loads the program,
  whether the cores ever report every task finished (the poll loop has no other exit),
  and the task array as they leave it. The transfers themselves, the log and the
  timers are outside the model; growing the image list and the task list is taken to
  succeed.
\<close>

record device_env =
  load_ok :: bool
  finishes :: bool
  download :: "EpTaskItem list \<Rightarrow> EpTaskItem list"

definition halve_all_realloc :: "pixel_kernels \<Rightarrow> heap \<Rightarrow> pyramid \<Rightarrow> (heap \<times> pyramid) option" where
  "halve_all_realloc K h p =
     (case scale21_realloc K h (img8 p) of None \<Rightarrow> None | Some (h1, i8) \<Rightarrow>
     (case scale21_realloc K h1 (img7 p) of None \<Rightarrow> None | Some (h2, i7) \<Rightarrow>
     (case scale21_realloc K h2 (img6 p) of None \<Rightarrow> None | Some (h3, i6) \<Rightarrow>
     (case scale21_realloc K h3 (img5 p) of None \<Rightarrow> None | Some (h4, i5) \<Rightarrow>
        Some (h4, \<lparr>img8 = i8, img7 = i7, img6 = i6, img5 = i5\<rparr>)))))"

definition send_image :: "EpImgList \<Rightarrow> EpImage \<Rightarrow> EpImgList" where
  "send_image imgs img = ep_img_list_add imgs (step img) (width img) (height img)"

partial_function (option) device_loop ::
  "pixel_kernels \<Rightarrow> int \<Rightarrow> int \<Rightarrow> heap \<Rightarrow> pyramid \<Rightarrow> EpImgList
   \<Rightarrow> (heap \<times> pyramid \<times> EpImgList) option" where
  "device_loop K window_width window_height h p imgs =
     (if too_small (img8 p) window_width window_height then Some (h, p, imgs) else
      let imgs1 = send_image imgs (img8 p) in
     (if too_small (img7 p) window_width window_height then Some (h, p, imgs1) else
      let imgs2 = send_image imgs1 (img7 p) in
     (if too_small (img6 p) window_width window_height then Some (h, p, imgs2) else
      let imgs3 = send_image imgs2 (img6 p) in
     (if too_small (img5 p) window_width window_height then Some (h, p, imgs3) else
      let imgs4 = send_image imgs3 (img5 p) in
     (case halve_all_realloc K h p of
        None \<Rightarrow> None
      | Some (h', p') \<Rightarrow> device_loop K window_width window_height h' p' imgs4)))))"

fun add_all_tasks ::
  "EpHeader \<Rightarrow> int \<Rightarrow> EpImgList \<Rightarrow> int \<Rightarrow> int \<Rightarrow> int list \<Rightarrow> EpTaskItem list
   \<Rightarrow> fault + EpTaskItem list" where
  "add_all_tasks H scan_mode imgs window_width window_height [] tasks = Inr tasks"
| "add_all_tasks H scan_mode imgs window_width window_height (i # rest) tasks =
     (case add_tasks_for_image H scan_mode imgs i window_width window_height tasks of
        Inl f \<Rightarrow> Inl f
      | Inr tasks' \<Rightarrow> add_all_tasks H scan_mode imgs window_width window_height rest tasks')"

definition ep_detect_multi_scale_device ::
  "EpHeader \<Rightarrow> pixel_kernels \<Rightarrow> device_env \<Rightarrow> heap \<Rightarrow> EpImage \<Rightarrow> EpCascadeClassifier
   \<Rightarrow> EpRect list \<Rightarrow> int \<Rightarrow> detect_result option" where
  "ep_detect_multi_scale_device H K E h img classifier objects scan_mode =
     (case ep_classifier_check H classifier of
        None \<Rightarrow> None
      | Some c \<Rightarrow>
     (if c \<noteq> 0
      then Some \<lparr>returned = ERR_ARGUMENT, heap_left = h, image_left = img, objects_left = objects\<rparr>
      else if ep_image_is_empty img
      then Some \<lparr>returned = ERR_ARGUMENT, heap_left = h, image_left = img, objects_left = objects\<rparr>
      else
     (case window_size H classifier of
        None \<Rightarrow> None
      | Some (window_width, window_height) \<Rightarrow>
     (if width img < window_width \<or> height img < window_height
      then Some \<lparr>returned = ERR_SUCCESS, heap_left = h, image_left = img, objects_left = objects\<rparr>
      else
     (case build_pyramid K h img of
        None \<Rightarrow> None
      | Some (h1, p, offset_x, offset_y) \<Rightarrow>
     (if \<not> load_ok E
      then Some \<lparr>returned = ERR_RAW (- 1), heap_left = h1,
                 image_left = ep_image_create_empty, objects_left = objects\<rparr>
      else
     (case device_loop K window_width window_height h1 p (ep_img_list_create_empty 0) of
        None \<Rightarrow> None
      | Some (h2, p', imgs) \<Rightarrow>
     (case add_all_tasks H scan_mode imgs window_width window_height
             [0..int (length (props imgs)) - 1] [] of
        Inl f \<Rightarrow> None
      | Inr tasks \<Rightarrow>
     (if \<not> finishes E then None
      else
     (case process_results H objects (download E tasks) imgs window_width window_height
             offset_x offset_y of
        None \<Rightarrow> None
      | Some (objects', n) \<Rightarrow>
          Some \<lparr>returned = ERR_SUCCESS, heap_left = release_all h2 p',
                image_left = ep_image_create_empty, objects_left = objects'\<rparr>))))))))))"

section \<open>A smallest classifier\<close>

text \<open>
  \<open>int_at bs off\<close> is the \<^verbatim>\<open>int\<close> stored at an offset inside a blob. \<open>example_classifier\<close>
  is, under \<open>sample_header\<close>, the shortest blob that \<^verbatim>\<open>ep_classifier_check\<close> accepts: a
  Meta node for a 3 by 3 window, one Decision node (a 1 by 1 feature at the window
  origin, score 0, empty subsets), a Stage node with threshold 1 and the Final node.
\<close>

definition int_at :: "byte list \<Rightarrow> int \<Rightarrow> int" where
  "int_at bs off = le32_decode (take 4 (drop (nat off) bs))"

text \<open>
  The node stream of a blob, as the specification describes it: a sequence of nodes,
  each starting with its type tag and as long as its kind says. \<open>node_tags\<close> walks
  the blob from offset 0 and gives the tags of its nodes in order; it is \<open>None\<close> when a
  tag names no node kind or the last node does not end with the blob.
\<close>

definition node_size :: "EpHeader \<Rightarrow> int \<Rightarrow> nat option" where
  "node_size H tag =
     (if tag = NODE_META H then Some (sizeof_EpNodeMeta H)
      else if tag = NODE_DECISION H then Some (sizeof_EpNodeDecision H)
      else if tag = NODE_STAGE H then Some (sizeof_EpNodeStage H)
      else if tag = NODE_FINAL H then Some (sizeof_EpNodeFinal H)
      else None)"

fun node_walk :: "EpHeader \<Rightarrow> byte list \<Rightarrow> nat \<Rightarrow> int \<Rightarrow> int list option" where
  "node_walk H bs 0 off = (if off = int (length bs) then Some [] else None)"
| "node_walk H bs (Suc fuel) off =
     (if off = int (length bs) then Some []
      else (case rd32 bs off of
              None \<Rightarrow> None
            | Some tag \<Rightarrow>
                (case node_size H tag of
                   None \<Rightarrow> None
                 | Some n \<Rightarrow>
                     (case node_walk H bs fuel (off + int n) of
                        None \<Rightarrow> None
                      | Some tags \<Rightarrow> Some (tag # tags)))))"

definition node_tags :: "EpHeader \<Rightarrow> byte list \<Rightarrow> int list option" where
  "node_tags H bs = node_walk H bs (length bs) 0"

text \<open>
  The structural invariants of a classifier in the words of the specification: the
  blob is not empty, its size is at least the sum of one node of each kind, the first
  node is Meta with a window at least 3 wide and 3 high, the second node is Decision,
  the second-to-last node is Stage and the last node is Final.
\<close>

definition structural_invariants :: "EpHeader \<Rightarrow> EpCascadeClassifier \<Rightarrow> bool" where
  "structural_invariants H c =
     (case cls_data c of
        None \<Rightarrow> False
      | Some bs \<Rightarrow>
          int (sizeof_EpNodeMeta H + sizeof_EpNodeDecision H
               + sizeof_EpNodeStage H + sizeof_EpNodeFinal H) \<le> cls_size c
          \<and> (case node_tags H (take (nat (cls_size c)) bs) of
                None \<Rightarrow> False
              | Some tags \<Rightarrow>
                  2 \<le> length tags
                  \<and> tags ! 0 = NODE_META H
                  \<and> 3 \<le> int_at bs (int (off_window_width H))
                  \<and> 3 \<le> int_at bs (int (off_window_height H))
                  \<and> tags ! 1 = NODE_DECISION H
                  \<and> tags ! (length tags - 2) = NODE_STAGE H
                  \<and> tags ! (length tags - 1) = NODE_FINAL H))"

text \<open>
  \<open>two_decisions_classifier\<close> is a Meta node followed by two Decision nodes and nothing
  else. The subset words 5 and 7 of its second Decision node hold the values 1 and 2,
  which are also the tags of Stage and Final under \<open>sample_header\<close>.
\<close>

definition two_decisions_blob :: "byte list" where
  "two_decisions_blob =
     [3, 0, 0, 0,  3, 0, 0, 0,  3, 0, 0, 0,
      0, 0, 0, 0,  1, 1, 0, 0,  0, 0, 0, 0,
      0, 0, 0, 0,  0, 0, 0, 0,  0, 0, 0, 0,  0, 0, 0, 0,
      0, 0, 0, 0,  0, 0, 0, 0,  0, 0, 0, 0,  0, 0, 0, 0,
      0, 0, 0, 0,  1, 1, 0, 0,  0, 0, 0, 0,
      0, 0, 0, 0,  0, 0, 0, 0,  0, 0, 0, 0,  0, 0, 0, 0,
      0, 0, 0, 0,  1, 0, 0, 0,  0, 0, 0, 0,  2, 0, 0, 0]"

definition two_decisions_classifier :: EpCascadeClassifier where
  "two_decisions_classifier = \<lparr>cls_data = Some two_decisions_blob, cls_size = 100\<rparr>"

definition example_blob :: "byte list" where
  "example_blob =
     [3, 0, 0, 0,  3, 0, 0, 0,  3, 0, 0, 0,
      0, 0, 0, 0,  1, 1, 0, 0,  0, 0, 0, 0,
      0, 0, 0, 0,  0, 0, 0, 0,  0, 0, 0, 0,  0, 0, 0, 0,
      0, 0, 0, 0,  0, 0, 0, 0,  0, 0, 0, 0,  0, 0, 0, 0,
      1, 0, 0, 0,  1, 0, 0, 0,
      2, 0, 0, 0]"

definition example_classifier :: EpCascadeClassifier where
  "example_classifier = \<lparr>cls_data = Some example_blob, cls_size = 68\<rparr>"

text \<open>
  \<open>padded_classifier\<close> is \<open>example_classifier\<close> with four zero bytes between the
  Decision node and the Stage node.
\<close>

definition padded_blob :: "byte list" where
  "padded_blob =
     [3, 0, 0, 0,  3, 0, 0, 0,  3, 0, 0, 0,
      0, 0, 0, 0,  1, 1, 0, 0,  0, 0, 0, 0,
      0, 0, 0, 0,  0, 0, 0, 0,  0, 0, 0, 0,  0, 0, 0, 0,
      0, 0, 0, 0,  0, 0, 0, 0,  0, 0, 0, 0,  0, 0, 0, 0,
      0, 0, 0, 0,
      1, 0, 0, 0,  1, 0, 0, 0,
      2, 0, 0, 0]"

definition padded_classifier :: EpCascadeClassifier where
  "padded_classifier = \<lparr>cls_data = Some padded_blob, cls_size = 72\<rparr>"

text \<open>
  \<open>accepting_classifier\<close> is \<open>example_classifier\<close> with threshold 0: its one stage passes
  every window. \<open>small_image\<close> is a 4 by 3 image of constant grey 7; a 3 by 3 window
  has two positions in it. \<open>level5_images\<close> describes six pyramid levels with step 8,
  and \<open>level5_task\<close> is a tile of level 5 at \<open>(1, 1)\<close> whose one detection is packed as
  \<open>x = 2\<close>, \<open>y = 1\<close>.
\<close>

definition accepting_blob :: "byte list" where
  "accepting_blob =
     [3, 0, 0, 0,  3, 0, 0, 0,  3, 0, 0, 0,
      0, 0, 0, 0,  1, 1, 0, 0,  0, 0, 0, 0,
      0, 0, 0, 0,  0, 0, 0, 0,  0, 0, 0, 0,  0, 0, 0, 0,
      0, 0, 0, 0,  0, 0, 0, 0,  0, 0, 0, 0,  0, 0, 0, 0,
      1, 0, 0, 0,  0, 0, 0, 0,
      2, 0, 0, 0]"

definition accepting_classifier :: EpCascadeClassifier where
  "accepting_classifier = \<lparr>cls_data = Some accepting_blob, cls_size = 68\<rparr>"

definition small_heap :: heap where
  "small_heap = \<lparr>cells = [0 \<mapsto> replicate 24 7], next_addr = 1, avail = 1024, junk = []\<rparr>"

definition small_image :: EpImage where
  "small_image = \<lparr>data = Some 0, width = 4, height = 3, step = 8\<rparr>"

text \<open>
  \<open>small_pyramid\<close> and \<open>small_pyramid_heap\<close> are the four images and the heap that the
  prologue of the two entry points builds from \<open>small_image\<close> in \<open>small_heap\<close>: the image
  has no 8 by 8 block, so the three derived levels are 0 by 0.
\<close>

definition small_pyramid :: pyramid where
  "small_pyramid =
     \<lparr>img8 = small_image,
      img7 = \<lparr>data = Some 1, width = 0, height = 0, step = 0\<rparr>,
      img6 = \<lparr>data = Some 2, width = 0, height = 0, step = 0\<rparr>,
      img5 = \<lparr>data = Some 3, width = 0, height = 0, step = 0\<rparr>\<rparr>"

definition small_pyramid_heap :: heap where
  "small_pyramid_heap =
     \<lparr>cells = [0 \<mapsto> replicate 24 7, 1 \<mapsto> [], 2 \<mapsto> [], 3 \<mapsto> []], next_addr = 4,
      avail = 1024, junk = []\<rparr>"



section \<open>A wide pyramid level\<close>

text \<open>
  \<open>wide_level\<close> is the image list after \<^verbatim>\<open>ep_img_list_add\<close> has entered one level 1017
  pixels wide and 36 rows high, with the step 1024 that \<^verbatim>\<open>ep_image_create\<close> gives that
  width.
\<close>

definition wide_level :: EpImgList where
  "wide_level = ep_img_list_add (ep_img_list_create_empty 0) 1024 1017 36"



section \<open>A 9 by 2 image\<close>

text \<open>
  An image 9 pixels wide and 2 rows high in a block with \<open>step = 16\<close>, as
  \<^verbatim>\<open>ep_image_create(9, 2)\<close> lays it out, the file \<^verbatim>\<open>ep_image_save\<close> writes for it under
  \<open>sample_header\<close>, and the block \<^verbatim>\<open>ep_image_load\<close> fills from that file.
\<close>

definition example_block :: "byte list" where
  "example_block = [1, 2, 3, 4, 5, 6, 7, 8, 9, 0, 0, 0, 0, 0, 0, 0,
                    11, 12, 13, 14, 15, 16, 17, 18, 19, 0, 0, 0, 0, 0, 0, 0]"

definition example_heap :: heap where
  "example_heap = \<lparr>cells = [0 \<mapsto> example_block], next_addr = 1, avail = 64, junk = []\<rparr>"

definition example_image :: EpImage where
  "example_image = \<lparr>data = Some 0, width = 9, height = 2, step = 16\<rparr>"

definition example_fs :: filesys where
  "example_fs = \<lparr>files = Map.empty, writable = (\<lambda>n. True), capacity = 64\<rparr>"

definition example_file :: "byte list" where
  "example_file = [1, 0, 0, 0, 9, 0, 0, 0, 2, 0, 0, 0,
                   1, 2, 3, 4, 5, 6, 7, 8, 9, 11, 12, 13, 14, 15, 16, 17, 18, 19]"

definition reloaded_block :: "byte list" where
  "reloaded_block = [1, 2, 3, 4, 5, 6, 7, 8, 9, 11, 12, 13, 14, 15, 16, 17,
                     18, 19, 0, 0, 0, 0, 0, 0, 0, 0, 0, 0, 0, 0, 0, 0]"

section \<open>Facts about the integer helpers\<close>

lemma and_minus_8: "(x::int) AND (- 8) = 8 * (x div 8)"
proof -
  have a: "(- 8 :: int) = NOT (mask 3)" by (simp add: mask_eq_exp_minus_1)
  have b: "8 * (x div 8) = push_bit 3 (drop_bit 3 x)"
    by (simp add: push_bit_eq_mult drop_bit_eq_div)
  show ?thesis
    unfolding a b
    by (rule bit_eqI) (auto simp add: bit_simps)
qed

lemma round_down_to_8n_eq: "round_down_to_8n x = 8 * (x div 8)"
  by (simp add: round_down_to_8n_def and_minus_8)

lemma round_up_to_8n_eq: "round_up_to_8n x = 8 * ((x + 7) div 8)"
  by (simp add: round_up_to_8n_def and_minus_8)

lemma round_to_8n_eq: "round_to_8n x = 8 * ((x + 4) div 8)"
  by (simp add: round_to_8n_def and_minus_8)

lemma sdiv_nonneg: "0 \<le> a \<Longrightarrow> 0 < b \<Longrightarrow> (a::int) sdiv b = a div b"
  by (cases "a = 0") (simp_all add: signed_divide_int_def)

lemma smod_nonneg: "0 \<le> a \<Longrightarrow> 0 < b \<Longrightarrow> (a::int) smod b = a mod b"
  by (simp add: smod_mod_positive)

lemma base256_digits:
  "(m::int) = 256 * x + a0 \<Longrightarrow> x = 256 * y + a1 \<Longrightarrow> y = 256 * a3 + a2
   \<Longrightarrow> a0 + 256 * a1 + 65536 * a2 + 16777216 * a3 = m"
  by linarith

lemma le32_sum:
  "(v::int) mod 256 + 256 * (v div 256 mod 256) + 65536 * (v div 65536 mod 256)
     + 16777216 * (v div 16777216 mod 256) = v mod 4294967296"
proof -
  have a: "v mod 4294967296 = 256 * (v div 256 mod 16777216) + v mod 256"
    using zmod_zmult2_eq [of 16777216 v 256] by simp
  have d1: "v div 256 div 256 = v div 65536"
    using zdiv_zmult2_eq [of 256 v 256] by simp
  have d2: "v div 65536 div 256 = v div 16777216"
    using zdiv_zmult2_eq [of 256 v 65536] by simp
  have b0: "v div 256 mod 16777216 = 256 * (v div 256 div 256 mod 65536) + v div 256 mod 256"
    using zmod_zmult2_eq [of 65536 "v div 256" 256] by simp
  have c0: "v div 65536 mod 65536 = 256 * (v div 65536 div 256 mod 256) + v div 65536 mod 256"
    using zmod_zmult2_eq [of 256 "v div 65536" 256] by simp
  have b: "v div 256 mod 16777216 = 256 * (v div 65536 mod 65536) + v div 256 mod 256"
    using b0 unfolding d1 .
  have c: "v div 65536 mod 65536 = 256 * (v div 16777216 mod 256) + v div 65536 mod 256"
    using c0 unfolding d2 .
  show ?thesis by (rule base256_digits [OF a b c])
qed

lemma le32_roundtrip:
  assumes "int32 v"
  shows "le32_decode (le32_encode v) = v"
proof -
  have w: "\<And>k. uint (word_of_int k :: byte) = k mod 256"
    by (simp add: uint_word_of_int take_bit_eq_mod)
  have u: "uint (word_of_int v :: byte) + 256 * uint (word_of_int (v div 256) :: byte)
        + 65536 * uint (word_of_int (v div 65536) :: byte)
        + 16777216 * uint (word_of_int (v div 16777216) :: byte) = v mod 4294967296"
    unfolding w by (rule le32_sum)
  have m: "v mod 4294967296 = (if 0 \<le> v then v else v + 4294967296)"
  proof (cases "0 \<le> v")
    case True
    then show ?thesis using assms by (simp add: int32_def)
  next
    case False
    then have "(v + 4294967296) mod 4294967296 = v + 4294967296"
      using assms by (intro mod_pos_pos_trivial) (simp_all add: int32_def)
    then show ?thesis using False by simp
  qed
  have "le32_decode (le32_encode v) =
      (if v mod 4294967296 < 2147483648 then v mod 4294967296 else v mod 4294967296 - 4294967296)"
    unfolding le32_decode_def le32_encode_def Let_def
    by (simp only: nth_Cons_0 nth_Cons_Suc nth_Cons_numeral numeral_nat One_nat_def u
        pred_numeral_simps arith_simps) 
  then show ?thesis using assms unfolding m int32_def by (simp split: if_splits)
qed
lemma fread_int_encode:
  assumes "int32 v"
  shows "fread_int (le32_encode v @ rest) = Some (v, rest)"
proof -
  have l: "length (le32_encode v) = 4" by (simp add: le32_encode_def)
  show ?thesis using le32_roundtrip[OF assms] l by (simp add: fread_int_def)
qed

text \<open>
  C8. A pixel payload shorter than \<open>width * height\<close> bytes should make \<^verbatim>\<open>ep_image_load\<close>
  return the empty image and report \<^verbatim>\<open>ERR_FILE_CONTENTS\<close>. The image returned is empty,
  but the code stored last is \<^verbatim>\<open>ERR_SUCCESS\<close>, and the stream is closed twice: the
  branch that stores \<^verbatim>\<open>ERR_FILE_CONTENTS\<close> does not return.
\<close>

theorem ep_image_load_truncated:
  assumes id: "int32 (FILE_ID_IMAGE H)" and w: "0 < w" "int32 w" and ht: "0 < ht" "int32 ht"
    and fc: "files fs name =
        Some (le32_encode (FILE_ID_IMAGE H) @ le32_encode w @ le32_encode ht @ payload)"
    and short: "int (length payload) < w * ht"
    and mem: "round_up_to_8n w * ht \<le> avail h"
  shows "error_code (ep_image_load H h fs name) = ERR_SUCCESS
       \<and> loaded (ep_image_load H h fs name) = ep_image_create_empty
       \<and> fcloses (ep_image_load H h fs name) = 2"
proof -
  have "0 \<le> round_up_to_8n w" using w(1) by (simp add: round_up_to_8n_eq)
  then have nn: "0 \<le> round_up_to_8n w * ht" using ht(1) by simp
  have m: "malloc h (round_up_to_8n w * ht) =
      (Some (next_addr h),
            h\<lparr>cells := (cells h)(next_addr h \<mapsto> take (nat (round_up_to_8n w * ht)) (junk h @ replicate (nat (round_up_to_8n w * ht)) 0)),
              next_addr := Suc (next_addr h),
              avail := avail h - (round_up_to_8n w * ht)\<rparr>)"
    using mem nn by (simp add: malloc_def)
  have g: "int (length (take (nat (w * ht)) payload)) \<noteq> w * ht"
    using short by simp
  show ?thesis
    using w(1) ht(1) g
    by (simp add: ep_image_load_def fc fread_int_encode id w(2) ht(2) ep_image_create_def m
        Let_def ep_image_release_def ep_image_create_empty_def)
qed

theorem ep_image_load_truncated_witness:
  "int32 (FILE_ID_IMAGE sample_header) \<and> (0::int) < 1 \<and> int32 1
   \<and> files \<lparr>files = [''img'' \<mapsto> le32_encode 1 @ le32_encode 1 @ le32_encode 1 @ []],
              writable = (\<lambda>n. True), capacity = 100\<rparr> ''img''
       = Some (le32_encode (FILE_ID_IMAGE sample_header) @ le32_encode 1 @ le32_encode 1 @ [])
   \<and> int (length ([] :: byte list)) < 1 * 1
   \<and> round_up_to_8n 1 * 1 \<le> avail \<lparr>cells = Map.empty, next_addr = 0, avail = 64, junk = []\<rparr>
   \<and> error_code (ep_image_load sample_header
          \<lparr>cells = Map.empty, next_addr = 0, avail = 64, junk = []\<rparr>
          \<lparr>files = [''img'' \<mapsto> le32_encode 1 @ le32_encode 1 @ le32_encode 1 @ []],
              writable = (\<lambda>n. True), capacity = 100\<rparr> ''img'') = ERR_SUCCESS"
proof -
  have a: "int32 (FILE_ID_IMAGE sample_header)" by (simp add: int32_def sample_header_def)
  have b: "int32 1" by (simp add: int32_def)
  have c: "files \<lparr>files = [''img'' \<mapsto> le32_encode 1 @ le32_encode 1 @ le32_encode 1 @ []],
              writable = (\<lambda>n. True), capacity = 100\<rparr> ''img''
       = Some (le32_encode (FILE_ID_IMAGE sample_header) @ le32_encode 1 @ le32_encode 1 @ [])"
    by (simp add: sample_header_def)
  have d: "round_up_to_8n 1 * 1 \<le> avail \<lparr>cells = Map.empty, next_addr = 0, avail = 64, junk = []\<rparr>"
    by (simp add: round_up_to_8n_def)
  have e: "int (length ([] :: byte list)) < 1 * 1" by simp
  show ?thesis
    using ep_image_load_truncated [OF a _ b _ b c e d] a b c d e by simp
qed


section \<open>Files: saving and loading an image\<close>

lemma image_rows_example: "image_rows example_heap example_image =
   Some [[1, 2, 3, 4, 5, 6, 7, 8, 9], [11, 12, 13, 14, 15, 16, 17, 18, 19]]"
  by (simp add: image_rows_def example_heap_def example_image_def example_block_def span_def
      numeral_2_eq_2)

lemma le32_encode_small: "le32_encode 1 = [1,0,0,0]" "le32_encode 9 = [9,0,0,0]" "le32_encode 2 = [2,0,0,0]"
  by (simp_all add: le32_encode_def)

lemma ep_image_save_example: "ep_image_save sample_header example_heap example_image example_fs ''img'' =
   Some (ERR_SUCCESS, example_fs\<lparr>files := [''img'' \<mapsto> example_file]\<rparr>)"
  by (simp add: ep_image_save_def image_rows_example ep_image_is_empty_def fwrite_def le32_encode_small example_file_def)
   (simp add: example_image_def example_fs_def sample_header_def le32_encode_small fwrite_def)

lemma le32_decode_small: "le32_decode [1,0,0,0] = 1" "le32_decode [9,0,0,0] = 9" "le32_decode [2,0,0,0] = 2"
  by (simp_all add: le32_decode_def)

lemma round_up_to_8n_9: "round_up_to_8n 9 = 16"
  by (simp add: round_up_to_8n_def)

lemma ep_image_load_example:
  "ep_image_load sample_header example_heap (example_fs\<lparr>files := [''img'' \<mapsto> example_file]\<rparr>) ''img''
   = \<lparr>loaded = \<lparr>data = Some 1, width = 9, height = 2, step = 16\<rparr>,
      error_code = ERR_SUCCESS,
      heap_after = \<lparr>cells = [0 \<mapsto> example_block, 1 \<mapsto> reloaded_block], next_addr = 2,
                     avail = 32, junk = []\<rparr>,
      fcloses = 1\<rparr>"
  by (simp add: ep_image_load_def example_file_def fread_int_def le32_decode_small sample_header_def
      ep_image_create_def round_up_to_8n_9 malloc_def example_heap_def fread_into_def reloaded_block_def
      ep_image_create_empty_def numeral_eq_Suc)

lemma image_rows_reloaded:
  "image_rows
     (heap_after (ep_image_load sample_header example_heap
                    (example_fs\<lparr>files := [''img'' \<mapsto> example_file]\<rparr>) ''img''))
     (loaded (ep_image_load sample_header example_heap
                (example_fs\<lparr>files := [''img'' \<mapsto> example_file]\<rparr>) ''img''))
   = Some [[1, 2, 3, 4, 5, 6, 7, 8, 9], [18, 19, 0, 0, 0, 0, 0, 0, 0]]"
  unfolding ep_image_load_example
  by (simp add: image_rows_def reloaded_block_def span_def numeral_2_eq_2)

text \<open>
  C7. Saving an image or a classifier and loading it again should give back the same
  dimensions, the same data bytes and the same checksum. For the 9 by 2 image both
  calls succeed and the dimensions come back, but \<^verbatim>\<open>ep_image_load\<close> reads the packed
  rows of the file in one piece into a block whose rows are \<open>step = 16\<close> bytes apart:
  the second row of the loaded image starts with the last two pixels of the file and
  goes on into memory the file never filled, and the checksum changes from 180 to 82.
\<close>

theorem ep_image_roundtrip_9x2:
  "ep_image_save sample_header example_heap example_image example_fs ''img''
     = Some (ERR_SUCCESS, example_fs\<lparr>files := [''img'' \<mapsto> example_file]\<rparr>)
   \<and> (let r = ep_image_load sample_header example_heap
                 (example_fs\<lparr>files := [''img'' \<mapsto> example_file]\<rparr>) ''img''
      in error_code r = ERR_SUCCESS
         \<and> width (loaded r) = width example_image
         \<and> height (loaded r) = height example_image
         \<and> image_rows example_heap example_image
             = Some [[1, 2, 3, 4, 5, 6, 7, 8, 9], [11, 12, 13, 14, 15, 16, 17, 18, 19]]
         \<and> image_rows (heap_after r) (loaded r)
             = Some [[1, 2, 3, 4, 5, 6, 7, 8, 9], [18, 19, 0, 0, 0, 0, 0, 0, 0]]
         \<and> ep_image_checksum example_heap example_image = Some 180
         \<and> ep_image_checksum (heap_after r) (loaded r) = Some 82)"
proof -
  have dims: "width example_image = 9" "height example_image = 2"
    by (simp_all add: example_image_def)
  show ?thesis
    unfolding Let_def ep_image_checksum_def image_rows_reloaded image_rows_example
      ep_image_save_example
    by (simp add: ep_image_load_example dims)
qed

section \<open>Structural validation of a classifier\<close>

lemma sample_header_fields:
  "FILE_ID_IMAGE sample_header = 1" "FILE_ID_CLASSIFIER sample_header = 2"
  "MAX_TILE_BYTES sample_header = 8192" "RECOMMENDED_TILE_SIZE sample_header = 32"
  "MAX_DETECTIONS_PER_TILE sample_header = 16"
  "SCAN_EVEN sample_header = 0" "SCAN_ODD sample_header = 1" "SCAN_FULL sample_header = 2"
  "NODE_META sample_header = 3" "NODE_DECISION sample_header = 0"
  "NODE_STAGE sample_header = 1" "NODE_FINAL sample_header = 2"
  "sizeof_EpNodeMeta sample_header = 12" "sizeof_EpNodeDecision sample_header = 44"
  "sizeof_EpNodeStage sample_header = 8" "sizeof_EpNodeFinal sample_header = 4"
  "off_window_width sample_header = 4" "off_window_height sample_header = 8"
  "off_feature sample_header = 4" "off_score sample_header = 8"
  "off_subsets sample_header = 12" "off_threshold sample_header = 4"
  by (simp_all add: sample_header_def)

lemma rd32_in_range:
  "0 \<le> off \<Longrightarrow> off + 4 \<le> int (length bs) \<Longrightarrow> rd32 bs off = Some (int_at bs off)"
  by (simp add: rd32_def span_def int_at_def)

lemma ep_classifier_check_nonempty:
  assumes layout: "4 \<le> sizeof_EpNodeStage H" "4 \<le> sizeof_EpNodeFinal H"
      "4 \<le> sizeof_EpNodeDecision H"
      "off_window_width H + 4 \<le> sizeof_EpNodeMeta H"
      "off_window_height H + 4 \<le> sizeof_EpNodeMeta H"
    and block: "cls_data c = Some bs" "int (length bs) = cls_size c"
  shows "ep_classifier_check H c =
     Some (if cls_size c < int (sizeof_EpNodeMeta H + sizeof_EpNodeDecision H
                                + sizeof_EpNodeStage H + sizeof_EpNodeFinal H) then 2
           else if int_at bs 0 \<noteq> NODE_META H then 3
           else if int_at bs (int (off_window_height H)) < 3
                 \<or> int_at bs (int (off_window_width H)) < 3 then 4
           else if int_at bs (int (sizeof_EpNodeMeta H)) \<noteq> NODE_DECISION H then 5
           else if int_at bs (cls_size c - int (sizeof_EpNodeFinal H)) \<noteq> NODE_FINAL H then 6
           else if int_at bs (cls_size c - int (sizeof_EpNodeFinal H) - int (sizeof_EpNodeStage H))
                   \<noteq> NODE_STAGE H then 7
           else 0)"
proof (cases "cls_size c < int (sizeof_EpNodeMeta H + sizeof_EpNodeDecision H
                                + sizeof_EpNodeStage H + sizeof_EpNodeFinal H)")
  case True
  then show ?thesis using block by (simp add: ep_classifier_check_def)
next
  case False
  have r0: "rd32 bs 0 = Some (int_at bs 0)"
    using False layout block by (intro rd32_in_range) simp_all
  have rh: "rd32 bs (int (off_window_height H)) = Some (int_at bs (int (off_window_height H)))"
    using False layout block by (intro rd32_in_range) simp_all
  have rw: "rd32 bs (int (off_window_width H)) = Some (int_at bs (int (off_window_width H)))"
    using False layout block by (intro rd32_in_range) simp_all
  have r2: "rd32 bs (int (sizeof_EpNodeMeta H)) = Some (int_at bs (int (sizeof_EpNodeMeta H)))"
    using False layout block by (intro rd32_in_range) simp_all
  have rl: "rd32 bs (cls_size c - int (sizeof_EpNodeFinal H))
      = Some (int_at bs (cls_size c - int (sizeof_EpNodeFinal H)))"
    using False layout block by (intro rd32_in_range) simp_all
  have rb: "rd32 bs (cls_size c - int (sizeof_EpNodeFinal H) - int (sizeof_EpNodeStage H))
      = Some (int_at bs (cls_size c - int (sizeof_EpNodeFinal H) - int (sizeof_EpNodeStage H)))"
    using False layout block by (intro rd32_in_range) simp_all
  show ?thesis
    using False block(1) by (simp add: ep_classifier_check_def Let_def r0 rh rw r2 rl rb)
qed

lemma ep_classifier_check_example: "ep_classifier_check sample_header example_classifier = Some 0"
  by (simp add: ep_classifier_check_def example_classifier_def sample_header_def rd32_def span_def
      example_blob_def le32_decode_def)


lemma reads_of_two_decisions_blob:
  "rd32 two_decisions_blob 0 = Some 3" "rd32 two_decisions_blob 4 = Some 3"
  "rd32 two_decisions_blob 8 = Some 3" "rd32 two_decisions_blob 12 = Some 0"
  "rd32 two_decisions_blob 56 = Some 0" "rd32 two_decisions_blob 88 = Some 1"
  "rd32 two_decisions_blob 96 = Some 2"
  by (simp_all add: rd32_def span_def two_decisions_blob_def le32_decode_def)

lemma ep_classifier_check_two_decisions:
  "ep_classifier_check sample_header two_decisions_classifier = Some 0"
  by (simp add: ep_classifier_check_def two_decisions_classifier_def sample_header_fields
      reads_of_two_decisions_blob)

lemma node_size_sample:
  "node_size sample_header 3 = Some 12" "node_size sample_header 0 = Some 44"
  "node_size sample_header 1 = Some 8" "node_size sample_header 2 = Some 4"
  by (simp_all add: node_size_def sample_header_fields)

lemma node_walk_step:
  "0 < fuel \<Longrightarrow> node_walk H bs fuel off =
     (if off = int (length bs) then Some []
      else (case rd32 bs off of
              None \<Rightarrow> None
            | Some tag \<Rightarrow>
                (case node_size H tag of
                   None \<Rightarrow> None
                 | Some n \<Rightarrow>
                     (case node_walk H bs (fuel - 1) (off + int n) of
                        None \<Rightarrow> None
                      | Some tags \<Rightarrow> Some (tag # tags)))))"
  by (cases fuel) (auto split: option.splits)

lemma node_tags_two_decisions: "node_tags sample_header two_decisions_blob = Some [3, 0, 0]"
proof -
  have l: "length two_decisions_blob = 100"
    by (simp add: two_decisions_blob_def)
  show ?thesis
    unfolding node_tags_def
    by (simp add: l node_walk_step reads_of_two_decisions_blob node_size_sample)
qed

lemma reads_of_example_blob:
  "rd32 example_blob 0 = Some 3" "rd32 example_blob 12 = Some 0"
  "rd32 example_blob 56 = Some 1" "rd32 example_blob 64 = Some 2"
  by (simp_all add: rd32_def span_def example_blob_def le32_decode_def)

lemma node_tags_example: "node_tags sample_header example_blob = Some [3, 0, 1, 2]"
proof -
  have l: "length example_blob = 68"
    by (simp add: example_blob_def)
  show ?thesis
    unfolding node_tags_def
    by (simp add: l node_walk_step reads_of_example_blob node_size_sample)
qed

lemma structural_invariants_example: "structural_invariants sample_header example_classifier"
proof -
  have t: "take (nat (cls_size example_classifier)) example_blob = example_blob"
    by (simp add: example_classifier_def example_blob_def)
  have w: "int_at example_blob 4 = 3" "int_at example_blob 8 = 3"
    by (simp_all add: int_at_def example_blob_def le32_decode_def)
  have d: "cls_data example_classifier = Some example_blob" "cls_size example_classifier = 68"
    by (simp_all add: example_classifier_def)
  show ?thesis
    unfolding structural_invariants_def d option.case t [unfolded d] node_tags_example
    by (simp add: sample_header_fields w)
qed

text \<open>
  C6. \<^verbatim>\<open>ep_classifier_check\<close> should return 0 exactly for the blobs that keep the
  structural invariants, and a non-zero code when the last node is not Final or the
  node before it not Stage. It finds the last two nodes by their distance from the end
  of the blob, not by walking the nodes. \<open>two_decisions_classifier\<close> consists of a Meta
  node and two Decision nodes, so it has no Stage and no Final node and breaks the
  invariants; the check reads two subset words of its last Decision node as the tags of
  a Stage and a Final node and returns 0.
\<close>

theorem ep_classifier_check_accepts_two_decisions:
  "ep_classifier_check sample_header two_decisions_classifier = Some 0
   \<and> node_tags sample_header two_decisions_blob = Some [3, 0, 0]
   \<and> \<not> structural_invariants sample_header two_decisions_classifier"
proof -
  have t: "take (nat 100) two_decisions_blob = two_decisions_blob"
    by (simp add: two_decisions_blob_def)
  have d: "cls_data two_decisions_classifier = Some two_decisions_blob"
    "cls_size two_decisions_classifier = 100"
    by (simp_all add: two_decisions_classifier_def)
  have "\<not> structural_invariants sample_header two_decisions_classifier"
    unfolding structural_invariants_def d option.case t node_tags_two_decisions
    by (simp add: sample_header_fields)
  then show ?thesis
    using ep_classifier_check_two_decisions node_tags_two_decisions by simp
qed


section \<open>The interpreter on an accepted blob\<close>

lemma ep_classifier_check_padded: "ep_classifier_check sample_header padded_classifier = Some 0"
  by (simp add: ep_classifier_check_def padded_classifier_def sample_header_def rd32_def span_def
      padded_blob_def le32_decode_def)

lemma sign_bit_zero: "sign_bit 0 29 = 4" "sign_bit 0 30 = 2" "sign_bit 0 27 = 16" "sign_bit 0 28 = 8"
  by (simp_all add: sign_bit_def)

lemma reads_of_padded_blob:
  "rd32 padded_blob 16 = Some 257" "rd32 padded_blob 20 = Some 0" "rd32 padded_blob 52 = Some 0"
  "rd32 padded_blob 60 = Some 1" "rd32 padded_blob 64 = Some 1" "rd32 padded_blob 96 = None"
  "rd8 padded_blob 56 = Some 0"
  by (simp_all add: rd32_def rd8_def span_def padded_blob_def le32_decode_def)

lemma feature_fields_257:
  "drop_bit 16 (257::int) AND 255 = 0" "drop_bit 24 (257::int) = 0" "(257::int) AND 255 = 1"
  "drop_bit 8 (257::int) AND 255 = 1"
  by (simp_all add: drop_bit_eq_div)

lemma feature_fields_1:
  "drop_bit 16 (1::int) AND 255 = 0" "drop_bit 24 (1::int) = 0" "(1::int) AND 255 = 1"
  "drop_bit 8 (1::int) AND 255 = 0"
  by (simp_all add: drop_bit_eq_div)

lemma calc_lbp_decision_padded_12:
  "calc_lbp_decision sample_header (\<lambda>off. Some 0) 16 padded_blob 12 = Some 0"
  by (simp add: calc_lbp_decision_def sample_header_fields reads_of_padded_blob feature_fields_257 Let_def sign_bit_zero)

lemma calc_lbp_decision_padded_56:
  "calc_lbp_decision sample_header (\<lambda>off. Some 0) 16 padded_blob 56 = None"
  by (simp add: calc_lbp_decision_def sample_header_fields reads_of_padded_blob feature_fields_1 Let_def sign_bit_zero)

text \<open>
  C5. For every blob that \<^verbatim>\<open>ep_classifier_check\<close> accepts, \<^verbatim>\<open>classify\<close> should return 0 or
  1 without reading past the end of the blob. \<open>padded_classifier\<close> is accepted, since the
  check looks at the first two and the last two nodes only. On it the interpreter,
  run on pixel memory that is readable everywhere, takes the padding for a Decision
  node, whose subset word would lie at offset 96 of the 72 bytes: the run ends in a
  read outside the blob, not in a result.
\<close>

theorem classify_reads_past_blob:
  "ep_classifier_check sample_header padded_classifier = Some 0
   \<and> cls_data padded_classifier = Some padded_blob
   \<and> int (length padded_blob) = cls_size padded_classifier
   \<and> classify sample_header (\<lambda>off. Some 0) 16 padded_blob
         (int (sizeof_EpNodeMeta sample_header)) = None"
proof -
  have a: "decision_score sample_header (\<lambda>off. Some 0) 16 padded_blob 12 = Some 0"
    by (simp add: decision_score_def calc_lbp_decision_padded_12 sample_header_fields reads_of_padded_blob)
  have b: "decision_score sample_header (\<lambda>off. Some 0) 16 padded_blob 56 = None"
    by (simp add: decision_score_def calc_lbp_decision_padded_56 sample_header_fields reads_of_padded_blob)
  have c: "classify_loop sample_header (\<lambda>off. Some 0) 16 padded_blob 56 0 = None"
    by (subst classify_loop.simps) (simp add: reads_of_padded_blob b sample_header_fields)
  have d: "classify sample_header (\<lambda>off. Some 0) 16 padded_blob 12 = None"
    using c by (simp add: classify_def a sample_header_fields)
  have e: "int (length padded_blob) = cls_size padded_classifier"
    by (simp add: padded_blob_def padded_classifier_def)
  show ?thesis
    using d e ep_classifier_check_padded
    by (simp add: sample_header_fields padded_classifier_def)
qed

section \<open>Positions scanned at one scale\<close>

lemma set_scan_line:
  "set (scan_line H m x pw) = {x'. x \<le> x' \<and> x' < pw \<and> (m = SCAN_FULL H \<or> even (x' - x))}"
proof (induction H m x pw rule: scan_line.induct)
  case (1 H m x pw)
  show ?case
  proof (cases "x < pw")
    case False
    then show ?thesis by (subst scan_line.simps) auto
  next
    case True
    have "set (scan_line H m x pw)
        = insert x (set (scan_line H m (x + (if m = SCAN_FULL H then 1 else 2)) pw))"
      using True by (subst scan_line.simps) simp
    also have "\<dots> = insert x {x'. x + (if m = SCAN_FULL H then 1 else 2) \<le> x' \<and> x' < pw
                    \<and> (m = SCAN_FULL H \<or> even (x' - (x + (if m = SCAN_FULL H then 1 else 2))))}"
      using 1 [OF True] by simp
    also have "\<dots> = {x'. x \<le> x' \<and> x' < pw \<and> (m = SCAN_FULL H \<or> even (x' - x))}"
    proof (cases "m = SCAN_FULL H")
      case True
      then show ?thesis using \<open>x < pw\<close> by auto
    next
      case False
      have "\<And>x'. (x' = x \<or> x + 2 \<le> x' \<and> even (x' - (x + 2))) = (x \<le> x' \<and> even (x' - x))"
        by presburger
      then show ?thesis using False \<open>x < pw\<close> by auto
    qed
    finally show ?thesis .
  qed
qed

lemma checker_start:
  "(((y + m) AND 1) \<le> x \<and> even (x - ((y + m) AND 1))) = (0 \<le> x \<and> even (x + y + (m::int)))"
proof -
  have "(y + m) AND 1 = (y + m) mod 2" by (simp add: and_one_eq)
  then show ?thesis by presburger
qed

lemma set_scan_positions:
  "set (scan_positions H m pw ph) =
     {(x, y). 0 \<le> y \<and> y < ph \<and> 0 \<le> x \<and> x < pw \<and> (m = SCAN_FULL H \<or> even (x + y + m))}"
proof (cases "m = SCAN_FULL H")
  case True
  then show ?thesis
    unfolding scan_positions_def by (auto simp add: set_scan_line)
next
  case False
  have "set (scan_positions H m pw ph) =
      {(x, y). 0 \<le> y \<and> y < ph \<and> ((y + m) AND 1) \<le> x \<and> x < pw \<and> even (x - ((y + m) AND 1))}"
    unfolding scan_positions_def using False by (auto simp add: set_scan_line)
  also have "\<dots> = {(x, y). 0 \<le> y \<and> y < ph \<and> 0 \<le> x \<and> x < pw \<and> even (x + y + m)}"
    using checker_start [of _ m] by blast
  finally show ?thesis using False by simp
qed

lemma classify_positions_filter:
  assumes "\<forall>p \<in> set ps. classify H (\<lambda>off. pixel_at buf (snd p * st + fst p + off)) st bs
                              (int (sizeof_EpNodeMeta H)) \<noteq> None"
  shows "classify_positions H buf st bs scale ox oy dw dh ps objs =
     Some (objs @ map (\<lambda>p. \<lparr>rect_x = of_int (fst p) * scale + of_int ox,
                              rect_y = of_int (snd p) * scale + of_int oy,
                              rect_width = dw, rect_height = dh\<rparr>)
                      (filter (\<lambda>p. classify H (\<lambda>off. pixel_at buf (snd p * st + fst p + off)) st bs
                                       (int (sizeof_EpNodeMeta H)) \<noteq> Some 0) ps))"
  using assms
proof (induction ps arbitrary: objs)
  case Nil
  then show ?case by simp
next
  case (Cons p ps)
  obtain x y where p: "p = (x, y)" by (cases p)
  from Cons.prems obtain r where
    r: "classify H (\<lambda>off. pixel_at buf (y * st + x + off)) st bs (int (sizeof_EpNodeMeta H)) = Some r"
    unfolding p by auto
  have rest: "\<forall>p \<in> set ps. classify H (\<lambda>off. pixel_at buf (snd p * st + fst p + off)) st bs
                              (int (sizeof_EpNodeMeta H)) \<noteq> None"
    using Cons.prems by simp
  show ?case
    unfolding p using r by (simp add: Cons.IH [OF rest])
qed

lemma detect_single_scale_host_filter:
  assumes "window_size H c = Some (ww, wh)"
    and "\<forall>p \<in> set (scan_positions H m (width img + 1 - ww) (height img + 1 - wh)).
           classify_at H h img c p \<noteq> None"
  shows "detect_single_scale_host H h img c objs scale ox oy m =
     Some (objs @ map (scaled_rect scale ox oy ww wh)
                      (filter (\<lambda>p. classify_at H h img c p \<noteq> Some 0)
                         (scan_positions H m (width img + 1 - ww) (height img + 1 - wh))))"
  using assms(2)
  unfolding detect_single_scale_host_def assms(1) classify_at_def
  by (simp add: Let_def classify_positions_filter scaled_rect_def [abs_def])

lemma reads_of_accepting_blob:
  "rd32 accepting_blob 4 = Some 3" "rd32 accepting_blob 8 = Some 3"
  "rd32 accepting_blob 16 = Some 257" "rd32 accepting_blob 20 = Some 0"
  "rd32 accepting_blob 52 = Some 0" "rd32 accepting_blob 60 = Some 0"
  "rd8 accepting_blob 56 = Some 1" "rd8 accepting_blob 64 = Some 2"
  by (simp_all add: rd32_def rd8_def span_def accepting_blob_def le32_decode_def)

lemma classify_accepting:
  assumes "\<And>off. 0 \<le> off \<Longrightarrow> off < 19 \<Longrightarrow> px off = Some 7"
  shows "classify sample_header px 8 accepting_blob 12 = Some 1"
proof -
  have p: "px 0 = Some 7" "px 1 = Some 7" "px 2 = Some 7" "px 8 = Some 7" "px 9 = Some 7"
    "px 10 = Some 7" "px 16 = Some 7" "px 17 = Some 7" "px 18 = Some 7"
    by (simp_all add: assms)
  have c: "calc_lbp_decision sample_header px 8 accepting_blob 12 = Some 0"
    by (simp add: calc_lbp_decision_def sample_header_fields reads_of_accepting_blob
        feature_fields_257 Let_def sign_bit_zero p)
  have d: "decision_score sample_header px 8 accepting_blob 12 = Some 0"
    by (simp add: decision_score_def c sample_header_fields reads_of_accepting_blob)
  have l: "classify_loop sample_header px 8 accepting_blob 56 0 = Some 1"
    by (subst classify_loop.simps) (simp add: reads_of_accepting_blob sample_header_fields)
  show ?thesis
    using l by (simp add: classify_def d sample_header_fields)
qed


lemma classify_at_small:
  assumes "0 \<le> fst p" "fst p < 2" "snd p = 0"
  shows "classify_at sample_header small_heap small_image accepting_classifier p = Some 1"
proof -
  have b: "image_block small_heap small_image = replicate 24 7"
    by (simp add: image_block_def small_heap_def small_image_def)
  have f: "step small_image = 8" "cls_data accepting_classifier = Some accepting_blob"
    by (simp_all add: small_image_def accepting_classifier_def)
  have "classify sample_header (\<lambda>off. pixel_at (replicate 24 7) (snd p * 8 + fst p + off)) 8
      accepting_blob 12 = Some 1"
    using assms by (intro classify_accepting) (simp add: pixel_at_def)
  then show ?thesis
    by (simp add: classify_at_def b f sample_header_fields)
qed

text \<open>
  C4. \<^verbatim>\<open>detect_single_scale_host\<close> on an image \<open>w\<close> by \<open>h\<close> with a classifier whose
  window is \<open>ww\<close> by \<open>wh\<close>, where the interpreter returns at every window position:
  under each of the three scan modes the call appends to \<open>objects\<close>, in scan order, the
  scaled rectangle of every position of that mode that the classifier accepts, and
  nothing else. The positions of \<^verbatim>\<open>SCAN_EVEN\<close> and of \<^verbatim>\<open>SCAN_ODD\<close> are disjoint, and
  together they are the positions of \<^verbatim>\<open>SCAN_FULL\<close>: every \<open>(x, y)\<close> with
  \<open>0 \<le> x < w + 1 - ww\<close> and \<open>0 \<le> y < h + 1 - wh\<close>. The enumerators come from the
  header: the two checkerboard modes differ from \<^verbatim>\<open>SCAN_FULL\<close>, one is even and the
  other odd.
\<close>

theorem detect_single_scale_host_scan_modes:
  assumes "SCAN_EVEN H \<noteq> SCAN_FULL H" and "SCAN_ODD H \<noteq> SCAN_FULL H"
    and "even (SCAN_EVEN H)" and "odd (SCAN_ODD H)"
    and "window_size H c = Some (ww, wh)"
    and "\<forall>p. 0 \<le> fst p \<and> fst p < width img + 1 - ww \<and> 0 \<le> snd p \<and> snd p < height img + 1 - wh
             \<longrightarrow> classify_at H h img c p \<noteq> None"
  shows "(\<forall>m \<in> {SCAN_EVEN H, SCAN_ODD H, SCAN_FULL H}.
            detect_single_scale_host H h img c objs scale ox oy m =
              Some (objs @ map (scaled_rect scale ox oy ww wh)
                      (filter (\<lambda>p. classify_at H h img c p \<noteq> Some 0)
                         (scan_positions H m (width img + 1 - ww) (height img + 1 - wh)))))
       \<and> set (scan_positions H (SCAN_EVEN H) (width img + 1 - ww) (height img + 1 - wh))
           \<inter> set (scan_positions H (SCAN_ODD H) (width img + 1 - ww) (height img + 1 - wh)) = {}
       \<and> set (scan_positions H (SCAN_EVEN H) (width img + 1 - ww) (height img + 1 - wh))
           \<union> set (scan_positions H (SCAN_ODD H) (width img + 1 - ww) (height img + 1 - wh))
         = set (scan_positions H (SCAN_FULL H) (width img + 1 - ww) (height img + 1 - wh))
       \<and> set (scan_positions H (SCAN_FULL H) (width img + 1 - ww) (height img + 1 - wh))
         = {(x, y). 0 \<le> x \<and> x < width img + 1 - ww \<and> 0 \<le> y \<and> y < height img + 1 - wh}"
proof -
  have e: "\<And>x y. even (x + y + SCAN_EVEN H) = even (x + y)"
    using assms(3) by simp
  have o: "\<And>x y. even (x + y + SCAN_ODD H) = odd (x + y)"
    using assms(4) by simp
  have sets: "set (scan_positions H (SCAN_EVEN H) (width img + 1 - ww) (height img + 1 - wh))
           \<inter> set (scan_positions H (SCAN_ODD H) (width img + 1 - ww) (height img + 1 - wh)) = {}
       \<and> set (scan_positions H (SCAN_EVEN H) (width img + 1 - ww) (height img + 1 - wh))
           \<union> set (scan_positions H (SCAN_ODD H) (width img + 1 - ww) (height img + 1 - wh))
         = set (scan_positions H (SCAN_FULL H) (width img + 1 - ww) (height img + 1 - wh))
       \<and> set (scan_positions H (SCAN_FULL H) (width img + 1 - ww) (height img + 1 - wh))
         = {(x, y). 0 \<le> x \<and> x < width img + 1 - ww \<and> 0 \<le> y \<and> y < height img + 1 - wh}"
    unfolding set_scan_positions using assms(1-4) by (auto simp add: e o)
  have defined: "\<forall>p \<in> set (scan_positions H m (width img + 1 - ww) (height img + 1 - wh)).
      classify_at H h img c p \<noteq> None" for m
    using assms(6) unfolding set_scan_positions by auto
  have "detect_single_scale_host H h img c objs scale ox oy m =
      Some (objs @ map (scaled_rect scale ox oy ww wh)
              (filter (\<lambda>p. classify_at H h img c p \<noteq> Some 0)
                 (scan_positions H m (width img + 1 - ww) (height img + 1 - wh))))" for m
    by (rule detect_single_scale_host_filter [OF assms(5) defined])
  then show ?thesis using sets by blast
qed

theorem detect_single_scale_host_scan_modes_witness:
  "SCAN_EVEN sample_header \<noteq> SCAN_FULL sample_header
   \<and> SCAN_ODD sample_header \<noteq> SCAN_FULL sample_header
   \<and> even (SCAN_EVEN sample_header) \<and> odd (SCAN_ODD sample_header)
   \<and> window_size sample_header accepting_classifier = Some (3, 3)
   \<and> classify_at sample_header small_heap small_image accepting_classifier (0, 0) = Some 1
   \<and> classify_at sample_header small_heap small_image accepting_classifier (1, 0) = Some 1
   \<and> detect_single_scale_host sample_header small_heap small_image accepting_classifier [] 1 0 0
         (SCAN_EVEN sample_header) = Some [scaled_rect 1 0 0 3 3 (0, 0)]
   \<and> detect_single_scale_host sample_header small_heap small_image accepting_classifier [] 1 0 0
         (SCAN_ODD sample_header) = Some [scaled_rect 1 0 0 3 3 (1, 0)]
   \<and> detect_single_scale_host sample_header small_heap small_image accepting_classifier [] 1 0 0
         (SCAN_FULL sample_header) = Some [scaled_rect 1 0 0 3 3 (0, 0), scaled_rect 1 0 0 3 3 (1, 0)]"
proof -
  have a: "SCAN_EVEN sample_header \<noteq> SCAN_FULL sample_header"
    "SCAN_ODD sample_header \<noteq> SCAN_FULL sample_header"
    "even (SCAN_EVEN sample_header)" "odd (SCAN_ODD sample_header)"
    by (simp_all add: sample_header_fields)
  have w: "window_size sample_header accepting_classifier = Some (3, 3)"
    by (simp add: window_size_def accepting_classifier_def sample_header_fields
        reads_of_accepting_blob)
  have d: "\<forall>p. 0 \<le> fst p \<and> fst p < width small_image + 1 - 3 \<and> 0 \<le> snd p
             \<and> snd p < height small_image + 1 - 3
           \<longrightarrow> classify_at sample_header small_heap small_image accepting_classifier p \<noteq> None"
  proof (intro allI impI)
    fix p :: "int \<times> int"
    assume "0 \<le> fst p \<and> fst p < width small_image + 1 - 3 \<and> 0 \<le> snd p
             \<and> snd p < height small_image + 1 - 3"
    then have "0 \<le> fst p" "fst p < 2" "snd p = 0"
      by (simp_all add: small_image_def)
    then show "classify_at sample_header small_heap small_image accepting_classifier p \<noteq> None"
      by (simp add: classify_at_small)
  qed
  have c: "classify_at sample_header small_heap small_image accepting_classifier (0, 0) = Some 1"
    "classify_at sample_header small_heap small_image accepting_classifier (1, 0) = Some 1"
    by (simp_all add: classify_at_small)
  have dims: "width small_image + 1 - 3 = 2" "height small_image + 1 - 3 = 1"
    by (simp_all add: small_image_def)
  have s: "scan_positions sample_header (SCAN_EVEN sample_header) 2 1 = [(0, 0)]"
    "scan_positions sample_header (SCAN_ODD sample_header) 2 1 = [(1, 0)]"
    "scan_positions sample_header (SCAN_FULL sample_header) 2 1 = [(0, 0), (1, 0)]"
    by (simp_all add: scan_positions_def scan_line.simps sample_header_fields upto.simps)
  show ?thesis
    using detect_single_scale_host_scan_modes [OF a w d, of "[]" 1 0 0] a w c
    by (simp add: dims s)
qed

section \<open>The two entry points on a 4 by 3 image\<close>

lemma build_pyramid_small:
  "build_pyramid K small_heap small_image = Some (small_pyramid_heap, small_pyramid, 2, 1)"
  by (simp add: build_pyramid_def small_image_def small_heap_def ep_image_create_def malloc_def
      round_up_to_8n_eq scale8765_def sdiv_nonneg smod_nonneg Let_def small_pyramid_def
      small_pyramid_heap_def eval_nat_numeral)

lemma ep_classifier_check_accepting:
  "ep_classifier_check sample_header accepting_classifier = Some 0"
  by (simp add: ep_classifier_check_def accepting_classifier_def sample_header_fields
      reads_of_accepting_blob rd32_def span_def accepting_blob_def le32_decode_def)

lemma window_size_accepting:
  "window_size sample_header accepting_classifier = Some (3, 3)"
  by (simp add: window_size_def accepting_classifier_def sample_header_fields
      reads_of_accepting_blob)

lemma small_image_fields:
  "data small_image = Some 0" "width small_image = 4" "height small_image = 3"
  "step small_image = 8" "\<not> ep_image_is_empty small_image"
  by (simp_all add: small_image_def ep_image_is_empty_def)

lemma image_block_small_pyramid:
  "image_block small_pyramid_heap small_image = image_block small_heap small_image"
  by (simp add: image_block_def small_pyramid_heap_def small_heap_def small_image_def)

lemma classify_at_small_pyramid:
  "classify_at sample_header small_pyramid_heap small_image accepting_classifier p =
   classify_at sample_header small_heap small_image accepting_classifier p"
  by (simp add: classify_at_def image_block_small_pyramid)

lemma scan_level_small:
  "scan_level sample_header small_pyramid_heap small_image accepting_classifier objs 0 2 1 m =
     Some (objs @ map (scaled_rect 1 2 1 3 3) (scan_positions sample_header m 2 1))"
proof -
  have in_range: "\<And>p. p \<in> set (scan_positions sample_header m 2 1)
      \<Longrightarrow> 0 \<le> fst p \<and> fst p < 2 \<and> snd p = 0"
    unfolding set_scan_positions by auto
  then have c: "\<And>p. p \<in> set (scan_positions sample_header m 2 1)
      \<Longrightarrow> classify_at sample_header small_pyramid_heap small_image accepting_classifier p = Some 1"
    by (simp add: classify_at_small_pyramid classify_at_small)
  have s: "convert_image_index_to_scale 0 = 1"
    by (simp add: convert_image_index_to_scale_def sdiv_nonneg smod_nonneg)
  have f: "filter (\<lambda>p. classify_at sample_header small_pyramid_heap small_image
                          accepting_classifier p \<noteq> Some 0)
             (scan_positions sample_header m 2 1) = scan_positions sample_header m 2 1"
    by (rule filter_True) (simp add: c)
  have "detect_single_scale_host sample_header small_pyramid_heap small_image
          accepting_classifier objs 1 2 1 m =
        Some (objs @ map (scaled_rect 1 2 1 3 3)
           (filter (\<lambda>p. classify_at sample_header small_pyramid_heap small_image
                          accepting_classifier p \<noteq> Some 0)
              (scan_positions sample_header m (width small_image + 1 - 3)
                 (height small_image + 1 - 3))))"
    by (rule detect_single_scale_host_filter [OF window_size_accepting])
       (simp add: small_image_fields c)
  then show ?thesis
    by (simp add: scan_level_def s small_image_fields f)
qed

lemma host_loop_small:
  "host_loop sample_header K accepting_classifier 3 3 2 1 m small_pyramid_heap small_pyramid objs 0 =
     Some (small_pyramid_heap, small_pyramid,
           objs @ map (scaled_rect 1 2 1 3 3) (scan_positions sample_header m 2 1))"
  by (subst host_loop.simps)
     (simp add: too_small_def small_pyramid_def small_image_fields
        scan_level_small [unfolded small_pyramid_def])

lemma release_all_small:
  "cells (release_all small_pyramid_heap small_pyramid) = Map.empty"
  by (auto simp add: release_all_def ep_image_release_def free_def small_pyramid_def
      small_pyramid_heap_def small_image_def fun_eq_iff)

lemma ep_detect_multi_scale_host_small:
  "ep_detect_multi_scale_host sample_header K small_heap small_image accepting_classifier objs m =
     Some \<lparr>returned = ERR_SUCCESS, heap_left = release_all small_pyramid_heap small_pyramid,
            image_left = ep_image_create_empty,
            objects_left = objs @ map (scaled_rect 1 2 1 3 3) (scan_positions sample_header m 2 1)\<rparr>"
  by (simp add: ep_detect_multi_scale_host_def ep_classifier_check_accepting small_image_fields
      window_size_accepting build_pyramid_small host_loop_small)

lemma ep_detect_multi_scale_device_small:
  "ep_detect_multi_scale_device sample_header K (E\<lparr>load_ok := False\<rparr>) small_heap small_image
      accepting_classifier objs m =
     Some \<lparr>returned = ERR_RAW (- 1), heap_left = small_pyramid_heap,
            image_left = ep_image_create_empty, objects_left = objs\<rparr>"
  by (simp add: ep_detect_multi_scale_device_def ep_classifier_check_accepting small_image_fields
      window_size_accepting build_pyramid_small)

lemma scan_positions_7: "scan_positions sample_header 7 2 1 = [(1, 0)]"
  by (simp add: scan_positions_def scan_line.simps sample_header_fields upto.simps)

text \<open>
  C9. \<^verbatim>\<open>ep_detect_multi_scale_host\<close> never looks at \<^verbatim>\<open>scan_mode\<close> before it scans. With
  the scan modes 0, 1 and 2 of the sample header, the call with \<^verbatim>\<open>scan_mode = 7\<close> on the
  4 by 3 image and the accepting classifier (valid classifier, non-empty image) returns
  \<^verbatim>\<open>ERR_SUCCESS\<close>, not \<^verbatim>\<open>ERR_ARGUMENT\<close>, and reports the window at \<open>(1, 0)\<close>: the mode is
  taken for a checkerboard of parity \<open>7 & 1\<close>. On this input no value of \<^verbatim>\<open>scan_mode\<close>
  at all gives \<^verbatim>\<open>ERR_ARGUMENT\<close>.
\<close>

theorem ep_detect_multi_scale_host_unknown_scan_mode:
  "SCAN_EVEN sample_header \<noteq> 7 \<and> SCAN_ODD sample_header \<noteq> 7 \<and> SCAN_FULL sample_header \<noteq> 7
   \<and> ep_classifier_check sample_header accepting_classifier = Some 0
   \<and> \<not> ep_image_is_empty small_image
   \<and> map_option returned
        (ep_detect_multi_scale_host sample_header K small_heap small_image
           accepting_classifier [] 7) = Some ERR_SUCCESS
   \<and> map_option objects_left
        (ep_detect_multi_scale_host sample_header K small_heap small_image
           accepting_classifier [] 7) = Some [scaled_rect 1 2 1 3 3 (1, 0)]
   \<and> map_option returned
        (ep_detect_multi_scale_host sample_header K small_heap small_image
           accepting_classifier objs m) = Some ERR_SUCCESS"
  by (simp add: ep_detect_multi_scale_host_small scan_positions_7 sample_header_fields
      ep_classifier_check_accepting small_image_fields)

text \<open>
  C10. The image block of \<open>small_image\<close> is cell 0 of \<open>small_heap\<close>. When \<^verbatim>\<open>e_load_group\<close>
  fails, \<^verbatim>\<open>ep_detect_multi_scale_device\<close> returns \<open>-1\<close> after it has overwritten the
  caller's structure with the empty image and before it releases anything: the caller's
  image is empty, but its block is still allocated, and no pointer to it is left. The
  host entry point on the same input returns with the image empty and the block
  released.
\<close>

theorem ep_detect_multi_scale_device_load_failure:
  "data small_image = Some 0 \<and> cells small_heap 0 = Some (replicate 24 7)
   \<and> ep_classifier_check sample_header accepting_classifier = Some 0
   \<and> window_size sample_header accepting_classifier = Some (3, 3)
   \<and> map_option returned
        (ep_detect_multi_scale_device sample_header K (E\<lparr>load_ok := False\<rparr>) small_heap
           small_image accepting_classifier objs m) = Some (ERR_RAW (- 1))
   \<and> map_option image_left
        (ep_detect_multi_scale_device sample_header K (E\<lparr>load_ok := False\<rparr>) small_heap
           small_image accepting_classifier objs m) = Some ep_image_create_empty
   \<and> map_option (\<lambda>r. cells (heap_left r) 0)
        (ep_detect_multi_scale_device sample_header K (E\<lparr>load_ok := False\<rparr>) small_heap
           small_image accepting_classifier objs m) = Some (Some (replicate 24 7))
   \<and> map_option image_left
        (ep_detect_multi_scale_host sample_header K small_heap small_image
           accepting_classifier objs m) = Some ep_image_create_empty
   \<and> map_option (\<lambda>r. cells (heap_left r) 0)
        (ep_detect_multi_scale_host sample_header K small_heap small_image
           accepting_classifier objs m) = Some None"
proof -
  have a: "cells small_heap 0 = Some (replicate 24 7)"
    "cells small_pyramid_heap 0 = Some (replicate 24 7)"
    by (simp_all add: small_heap_def small_pyramid_heap_def)
  show ?thesis
    by (simp add: ep_detect_multi_scale_device_small ep_detect_multi_scale_host_small
        release_all_small small_image_fields ep_classifier_check_accepting
        window_size_accepting a)
qed

section \<open>The tiling scheduler on a wide level\<close>

lemma c_div_pos: "0 \<le> a \<Longrightarrow> 0 < b \<Longrightarrow> c_div a b = Some (a div b)"
  by (simp add: c_div_def sdiv_nonneg)

lemma tile_counts_wide: "tile_counts sample_header 994 13 23 23 = Some (5, 1)"
  by (simp add: tile_counts_def divide_round_def divide_up_def c_div_pos sample_header_fields
      round_down_to_8n_eq round_up_to_8n_eq sdiv_nonneg Let_def)

lemma tile_bounds_wide:
  "tile_bounds 994 13 23 23 5 1 0 =
     Some \<lparr>tile_x1 = 0, tile_y1 = 0, tile_width = 223, tile_height = 36, tile_step = 224\<rparr>"
  "tile_bounds 994 13 23 23 5 1 1 =
     Some \<lparr>tile_x1 = 200, tile_y1 = 0, tile_width = 223, tile_height = 36, tile_step = 224\<rparr>"
  "tile_bounds 994 13 23 23 5 1 2 =
     Some \<lparr>tile_x1 = 400, tile_y1 = 0, tile_width = 223, tile_height = 36, tile_step = 224\<rparr>"
  "tile_bounds 994 13 23 23 5 1 3 =
     Some \<lparr>tile_x1 = 600, tile_y1 = 0, tile_width = 215, tile_height = 36, tile_step = 216\<rparr>"
  "tile_bounds 994 13 23 23 5 1 4 =
     Some \<lparr>tile_x1 = 792, tile_y1 = 0, tile_width = 225, tile_height = 36, tile_step = 232\<rparr>"
  by (simp_all add: tile_bounds_def divide_round_def c_div_pos round_to_8n_eq round_up_to_8n_eq
      sdiv_nonneg smod_nonneg Let_def)

lemma add_tiles_wide:
  "add_tiles sample_header m 1024 0 994 13 23 23 5 1 [0, 1, 2, 3, 4] task_buf = Inl AssertionFailed"
  by (simp add: tile_bounds_wide sample_header_fields)

text \<open>
  C2. With the budget 8192 and the recommended tile size 32 of the sample header and a
  24 by 24 window, \<^verbatim>\<open>add_tasks_for_image\<close> on a level 1017 by 36 computes 5 by 1 tiles
  for the corrected area 994 by 13. The last tile of the row starts at 792, a boundary
  rounded down to the 8-pixel grid, and is stretched to the right edge: it is 225 wide,
  its step is 232 and its height 36, and \<open>232 * 36 = 8352\<close> is over the budget. The
  \<^verbatim>\<open>assert\<close> at the task-append site fires, for every scan mode and every task list.
\<close>

theorem add_tasks_for_image_breaks_budget:
  "nth_opt (props wide_level) 0
     = Some \<lparr>prop_data_offset = 0, prop_step = 1024, prop_width = 1017, prop_height = 36\<rparr>
   \<and> tile_counts sample_header (1017 - 23) (36 - 23) 23 23 = Some (5, 1)
   \<and> tile_bounds (1017 - 23) (36 - 23) 23 23 5 1 4 =
       Some \<lparr>tile_x1 = 792, tile_y1 = 0, tile_width = 225, tile_height = 36, tile_step = 232\<rparr>
   \<and> MAX_TILE_BYTES sample_header < 232 * 36
   \<and> add_tasks_for_image sample_header m wide_level 0 24 24 task_buf = Inl AssertionFailed"
proof -
  have p: "nth_opt (props wide_level) 0
     = Some \<lparr>prop_data_offset = 0, prop_step = 1024, prop_width = 1017, prop_height = 36\<rparr>"
    by (simp add: wide_level_def ep_img_list_add_def ep_img_list_create_empty_def nth_opt_def)
  have u: "[0..4] = [0, 1, 2, 3, 4::int]"
    by (simp add: upto.simps)
  have "add_tasks_for_image sample_header m wide_level 0 24 24 task_buf = Inl AssertionFailed"
    by (simp add: add_tasks_for_image_def p tile_counts_wide u add_tiles_wide
        del: add_tiles.simps)
  then show ?thesis
    by (simp add: p tile_counts_wide tile_bounds_wide sample_header_fields)
qed

section \<open>The scale of a pyramid level\<close>













section \<open>Coverage of the tiling scheduler\<close>



















end
